theory Spec2Isabelle
  imports Main "HOL-Library.Word"
begin

unbundle bit_operations_syntax

section \<open>The 14a standalone mode (hf\_newcaps.c): data\<close>

text \<open>
  Bytes are \<open>uint8_t\<close>. Buffers are byte lists: the list is the whole C array, and the
  separate length field says how many of its bytes are meaningful.
\<close>

type_synonym byte = "8 word"

definition DYNAMIC_RESPONSE_BUFFER_SIZE :: nat where
  "DYNAMIC_RESPONSE_BUFFER_SIZE = 64"

definition DYNAMIC_MODULATION_BUFFER_SIZE :: nat where
  "DYNAMIC_MODULATION_BUFFER_SIZE = 1024"

text \<open>
  The receive buffer \<open>receivedCmd\<close> is an array of \<open>MAX_FRAME_SIZE\<close> bytes, a constant
  declared in a header outside \<open>hf_newcaps.c\<close>. The model takes the array as
  a list of whatever length. The code reads it at indices 0 and 1 and inside the windows
  that \<open>Reply2Reader\<close> compares, which end at index 20 at most. The array is sound for a
  command of \<open>len\<close> bytes when it holds these 21 bytes and the command.
\<close>

definition receive_buffer_ok :: "byte list \<Rightarrow> nat \<Rightarrow> bool" where
  "receive_buffer_ok receivedCmd len = (21 \<le> length receivedCmd \<and> len \<le> length receivedCmd)"

text \<open>
  \<open>tag_response_info_t\<close>, as far as this file uses it: the response bytes and their count.
  The modulation fields are written by \<open>prepare_tag_modulation\<close> and read by
  \<open>EmSendPrecompiledCmd\<close> only, both outside \<open>hf_newcaps.c\<close>.
\<close>

record tag_response_info =
  response :: "byte list"
  response_n :: nat

text \<open>
  \<open>memcpy (dst + off, src, length src)\<close>. A copy that ran past the end of \<open>dst\<close> would
  make the list longer than the array it stands for, so staying inside the array is the
  property that the length of the list does not change.
\<close>

definition memcpy :: "byte list \<Rightarrow> nat \<Rightarrow> byte list \<Rightarrow> byte list" where
  "memcpy dst off src = take off dst @ src @ drop (off + length src) dst"

text \<open>\<open>0 == memcmp (buf + off, pat, length pat)\<close>\<close>

definition memcmp_eq :: "byte list \<Rightarrow> nat \<Rightarrow> byte list \<Rightarrow> bool" where
  "memcmp_eq buf off pat = (take (length pat) (drop off buf) = pat)"

section \<open>Reply2Reader\<close>

definition reply01 :: "byte list" where
  "reply01 = [0x6f, 0x15, 0x84, 0x0e, 0x31, 0x50, 0x41, 0x59, 0x2e, 0x53, 0x59, 0x53, 0x2e,
     0x44, 0x44, 0x46, 0x30, 0x31, 0xa5, 0x03, 0x08, 0x01, 0x01, 0x90, 0x00]"

definition reply02 :: "byte list" where
  "reply02 = [0x6f, 0x37, 0x84, 0x0e, 0x4e, 0x43, 0x2e, 0x65, 0x43, 0x61, 0x72, 0x64, 0x2e,
     0x44, 0x44, 0x46, 0x30, 0x31, 0xa5, 0x25, 0x9f, 0x08, 0x01, 0x02, 0x9f, 0x0c, 0x1e, 0x6e,
     0x65, 0x77, 0x63, 0x61, 0x70, 0x65, 0x63, 0x00, 0x05, 0xaa, 0x00, 0x00, 0x01, 0x88, 0x0a,
     0x10, 0x00, 0x1a, 0x34, 0x00, 0x00, 0x00, 0x00, 0x00, 0x00, 0x00, 0x00, 0xf8, 0x6a, 0x90,
     0x00]"

definition reply03 :: "byte list" where
  "reply03 = [0x6e, 0x65, 0x77, 0x63, 0x61, 0x70, 0x65, 0x63, 0x00, 0x05, 0xaa, 0x00, 0x00,
     0x01, 0x88, 0x0a, 0x10, 0x00, 0x1a, 0x34, 0x00, 0x00, 0x00, 0x00, 0x00, 0x00, 0x00, 0x00,
     0xf8, 0x6f, 0x90, 0x00]"

definition cmd01 :: "byte list" where
  "cmd01 = [0x00, 0xA4, 0x00, 0x00, 0x02, 0x3f, 0x00]"

definition cmd02 :: "byte list" where
  "cmd02 = [0x00, 0xA4, 0x04, 0x00, 0x0e,
     0x4e, 0x43, 0x2e, 0x65, 0x43, 0x61, 0x72, 0x64, 0x2e, 0x44, 0x44, 0x46, 0x30, 0x31]"

definition cmd03 :: "byte list" where
  "cmd03 = [0x00, 0xB0, 0x95, 0x00, 0x1e]"

definition p_apdu_cmd :: "byte list list" where
  "p_apdu_cmd = [cmd01, cmd02, cmd03]"

definition p_apdu_response :: "byte list list" where
  "p_apdu_response = [reply01, reply02, reply03]"

text \<open>
  The \<open>for\<close> loop over the three table entries, from entry \<open>i\<close> on: the first argument is
  what is left of the table, each entry a command with its response. The result is the
  return value with the updated \<open>dynamic_response_info\<close>.
\<close>

fun Reply2Reader_from ::
  "(byte list \<times> byte list) list \<Rightarrow> tag_response_info \<Rightarrow> nat \<Rightarrow> byte list \<Rightarrow> nat
    \<Rightarrow> int \<times> tag_response_info" where
  "Reply2Reader_from [] dri apdu_start received_cmd cmd_len = (- 1, dri\<lparr>response_n := 0\<rparr>)"
| "Reply2Reader_from ((apdu_cmd, apdu_response) # rest) dri apdu_start received_cmd cmd_len =
     (if cmd_len < length apdu_cmd
      then Reply2Reader_from rest dri apdu_start received_cmd cmd_len
      else if \<not> memcmp_eq received_cmd apdu_start apdu_cmd
      then Reply2Reader_from rest dri apdu_start received_cmd cmd_len
      else (0, dri\<lparr>response :=
                    memcpy (memcpy (response dri) 0 (take apdu_start received_cmd))
                      apdu_start apdu_response,
                  response_n := apdu_start + length apdu_response\<rparr>))"

definition Reply2Reader ::
  "tag_response_info \<Rightarrow> nat \<Rightarrow> byte list \<Rightarrow> nat \<Rightarrow> int \<times> tag_response_info" where
  "Reply2Reader dri apdu_start received_cmd cmd_len =
     Reply2Reader_from (zip p_apdu_cmd p_apdu_response) dri apdu_start received_cmd cmd_len"

section \<open>Collaborators of the emulation\<close>

text \<open>
  Modelled from the spec: the protocol constants, declared in a header outside
  \<open>hf_newcaps.c\<close>. The spec's section on external interfaces gives REQUEST 0x26, HALT 0x50,
  ANTICOLLISION/SELECT 0x93 and RATS 0xE0; it names WAKEUP without a value, which is 0x52
  in ISO/IEC 14443-3.
\<close>

definition ISO14443A_CMD_REQA :: byte where "ISO14443A_CMD_REQA = 0x26"
definition ISO14443A_CMD_WUPA :: byte where "ISO14443A_CMD_WUPA = 0x52"
definition ISO14443A_CMD_HALT :: byte where "ISO14443A_CMD_HALT = 0x50"
definition ISO14443A_CMD_ANTICOLL_OR_SELECT :: byte where "ISO14443A_CMD_ANTICOLL_OR_SELECT = 0x93"
definition ISO14443A_CMD_RATS :: byte where "ISO14443A_CMD_RATS = 0xE0"

text \<open>The entries of the precompiled \<open>responses\<close> array that \<open>Emulation\<close> uses.\<close>

datatype resp_index = RESP_INDEX_ATQA | RESP_INDEX_UIDC1 | RESP_INDEX_SAKC1 | RESP_INDEX_RATS

datatype retcode = PM3_SUCCESS | PM3_EINIT | PM3_EFATAL | PM3_EOPABORTED

text \<open>
  The functions that \<open>Emulation\<close> calls and that live elsewhere in the firmware are
  parameters of the model:
  \<^item> \<open>SimulateIso14443aInit\<close> builds the precompiled responses from the four identifier
    bytes copied into \<open>data\<close> (tag type and flags are constants here), or fails (\<open>None\<close>);
  \<^item> \<open>compute_crc\<close> is the checksum that \<open>AddCrc14A\<close> appends, as its two bytes;
  \<^item> \<open>prepare_tag_modulation\<close> says whether the modulation of the response bytes (the
    first \<open>response_n\<close> bytes of the response) fits the given buffer size.
\<close>

record collaborators =
  SimulateIso14443aInit :: "byte list \<Rightarrow> (resp_index \<Rightarrow> tag_response_info) option"
  compute_crc :: "byte list \<Rightarrow> byte \<times> byte"
  prepare_tag_modulation :: "byte list \<Rightarrow> nat \<Rightarrow> bool"

text \<open>
  Modelled from the spec: \<open>AddCrc14A (buf, n)\<close> is defined outside \<open>hf_newcaps.c\<close>; by the
  spec's interface section it appends exactly 2 bytes, the frame check of the \<open>n\<close> bytes
  before them.
\<close>

definition AddCrc14A :: "(byte list \<Rightarrow> byte \<times> byte) \<Rightarrow> byte list \<Rightarrow> nat \<Rightarrow> byte list" where
  "AddCrc14A crc buf n = (case crc (take n buf) of (lo, hi) \<Rightarrow> memcpy buf n [lo, hi])"

text \<open>
  What the firmware does that can be observed. \<open>EmSendPrecompiledCmd\<close> transmits the
  modulation prepared from the first \<open>response_n\<close> bytes of a response; the model names the
  transmitted frame by these bytes. Debug output and the memory management of BigBuf are
  left out.
\<close>

datatype action =
    SpinDelay nat
  | LED_C_ON
  | LED_C_OFF
  | EmSendPrecompiledCmd "byte list"
  | reply_ng retcode

definition frame :: "tag_response_info \<Rightarrow> byte list" where
  "frame r = take (response_n r) (response r)"

text \<open>The frames transmitted by a run, in order.\<close>

fun transmitted :: "action list \<Rightarrow> byte list list" where
  "transmitted [] = []"
| "transmitted (EmSendPrecompiledCmd f # as) = f # transmitted as"
| "transmitted (a # as) = transmitted as"

section \<open>Emulation\<close>

text \<open>
  \<open>p_response\<close> is null, or points into the precompiled \<open>responses\<close>, or points to
  \<open>dynamic_response_info\<close>.
\<close>

datatype resp_ptr = NULL | Precompiled resp_index | Dynamic

text \<open>The variables of \<open>Emulation\<close> that live across iterations of its loop.\<close>

record emu_state =
  dynamic_response_info :: tag_response_info
  p_response :: resp_ptr

text \<open>
  What \<open>GetIso14443aCommandFromReader\<close> gives in one call: failure, or the contents of
  \<open>receivedCmd\<close> (the whole array, as the call leaves it) with the command length \<open>len\<close>,
  the number of bytes received. Bytes of the array behind the command are whatever the
  call left there, for instance the rest of an earlier, longer command.
\<close>

datatype reader_event = NoCommand | Command "byte list" nat

text \<open>The \<open>switch (receivedCmd[0])\<close> for the commands of ISO 14443-4.\<close>

definition switch_cmd :: "tag_response_info \<Rightarrow> byte list \<Rightarrow> nat \<Rightarrow> tag_response_info" where
  "switch_cmd dri receivedCmd len =
     (let c = receivedCmd ! 0 in
      if c = 0x02 \<or> c = 0x03 then snd (Reply2Reader dri 1 receivedCmd len)
      else if c = 0x0B \<or> c = 0x0A then snd (Reply2Reader dri 2 receivedCmd len)
      else if c = 0x1A \<or> c = 0x1B then dri\<lparr>response_n := 0\<rparr>
      else if c = 0xAA \<or> c = 0xBB
      then dri\<lparr>response := memcpy (response dri) 0 [c XOR 0x11], response_n := 2\<rparr>
      else if c = 0xBA
      then dri\<lparr>response := memcpy (memcpy (response dri) 0 [0xAB]) 1 [0x01], response_n := 2\<rparr>
      else if c = 0xCA \<or> c = 0xC2
      then dri\<lparr>response := memcpy (memcpy (response dri) 0 [0xCA]) 1 [0x01], response_n := 2\<rparr>
      else dri\<lparr>response_n := 0\<rparr>)"

text \<open>
  The chain of \<open>if\<close>s on the received command: the new \<open>p_response\<close> and
  \<open>dynamic_response_info\<close>.
\<close>

definition classify ::
  "resp_ptr \<Rightarrow> tag_response_info \<Rightarrow> byte list \<Rightarrow> nat \<Rightarrow> resp_ptr \<times> tag_response_info" where
  "classify p dri receivedCmd len =
     (if receivedCmd ! 0 = ISO14443A_CMD_REQA \<and> len = 1
      then (Precompiled RESP_INDEX_ATQA, dri)
      else if receivedCmd ! 0 = ISO14443A_CMD_HALT \<and> len = 4
      then (NULL, dri)
      else if receivedCmd ! 0 = ISO14443A_CMD_WUPA \<and> len = 1
      then (Precompiled RESP_INDEX_ATQA, dri)
      else if receivedCmd ! 1 = 0x20 \<and> receivedCmd ! 0 = ISO14443A_CMD_ANTICOLL_OR_SELECT \<and> len = 2
      then (Precompiled RESP_INDEX_UIDC1, dri)
      else if receivedCmd ! 1 = 0x70 \<and> receivedCmd ! 0 = ISO14443A_CMD_ANTICOLL_OR_SELECT \<and> len = 9
      then (Precompiled RESP_INDEX_SAKC1, dri)
      else if receivedCmd ! 0 = ISO14443A_CMD_RATS \<and> len = 4
      then (Precompiled RESP_INDEX_RATS, dri)
      else (p, switch_cmd dri receivedCmd len))"

text \<open>
  The end of the loop body, from \<open>if (dynamic_response_info.response_n > 0)\<close> on. The
  \<open>continue\<close> after a failed \<open>prepare_tag_modulation\<close> is the first branch.
\<close>

definition answer ::
  "collaborators \<Rightarrow> (resp_index \<Rightarrow> tag_response_info) \<Rightarrow> resp_ptr \<Rightarrow> tag_response_info
    \<Rightarrow> emu_state \<times> action list" where
  "answer env responses p dri =
     (if response_n dri > 0
      then
        (let dri1 = dri\<lparr>response := AddCrc14A (compute_crc env) (response dri) (response_n dri)\<rparr>;
             dri2 = dri1\<lparr>response_n := response_n dri1 + 2\<rparr>
         in if \<not> prepare_tag_modulation env (frame dri2) DYNAMIC_MODULATION_BUFFER_SIZE
            then (\<lparr>dynamic_response_info = dri2, p_response = p\<rparr>, [SpinDelay 500])
            else (\<lparr>dynamic_response_info = dri2, p_response = NULL\<rparr>,
                  [EmSendPrecompiledCmd (frame dri2), LED_C_OFF]))
      else
        (case p of
           NULL \<Rightarrow> (\<lparr>dynamic_response_info = dri, p_response = NULL\<rparr>, [])
         | Precompiled i \<Rightarrow>
             (\<lparr>dynamic_response_info = dri, p_response = NULL\<rparr>,
              [EmSendPrecompiledCmd (frame (responses i)), LED_C_OFF])
         | Dynamic \<Rightarrow>
             (\<lparr>dynamic_response_info = dri, p_response = NULL\<rparr>,
              [EmSendPrecompiledCmd (frame dri), LED_C_OFF])))"

text \<open>One iteration of the loop for a command that was received.\<close>

definition Emulation_iteration ::
  "collaborators \<Rightarrow> (resp_index \<Rightarrow> tag_response_info) \<Rightarrow> emu_state \<Rightarrow> byte list \<Rightarrow> nat
    \<Rightarrow> emu_state \<times> action list" where
  "Emulation_iteration env responses st receivedCmd len =
     (case classify (p_response st) ((dynamic_response_info st)\<lparr>response_n := 0\<rparr>) receivedCmd len
      of (p, dri) \<Rightarrow> answer env responses p dri)"

text \<open>
  The \<open>for (;;)\<close> loop, driven by what the reader does. It has no \<open>break\<close>: it ends only
  by the \<open>return\<close> after a failed reception. When the events are used up the firmware
  waits in \<open>GetIso14443aCommandFromReader\<close> and \<open>Emulation\<close> has not returned: the result
  is \<open>None\<close>.
\<close>

fun Emulation_loop ::
  "collaborators \<Rightarrow> (resp_index \<Rightarrow> tag_response_info) \<Rightarrow> emu_state \<Rightarrow> reader_event list
    \<Rightarrow> action list \<times> retcode option" where
  "Emulation_loop env responses st [] = ([LED_C_ON], None)"
| "Emulation_loop env responses st (NoCommand # evs) = ([LED_C_ON, LED_C_OFF], Some PM3_EOPABORTED)"
| "Emulation_loop env responses st (Command receivedCmd len # evs) =
     (case Emulation_iteration env responses st receivedCmd len of
        (st', acts) \<Rightarrow>
          (case Emulation_loop env responses st' evs of
             (acts', r) \<Rightarrow> (LED_C_ON # acts @ acts', r)))"

definition emu_state_initial :: emu_state where
  "emu_state_initial =
     \<lparr>dynamic_response_info =
        \<lparr>response = replicate DYNAMIC_RESPONSE_BUFFER_SIZE 0, response_n = 0\<rparr>,
      p_response = NULL\<rparr>"

definition Emulation ::
  "collaborators \<Rightarrow> byte list \<Rightarrow> reader_event list \<Rightarrow> action list \<times> retcode option" where
  "Emulation env uid evs =
     (case SimulateIso14443aInit env (take 4 uid) of
        None \<Rightarrow> ([SpinDelay 500, reply_ng PM3_EINIT], Some PM3_EFATAL)
      | Some responses \<Rightarrow>
          (case Emulation_loop env responses emu_state_initial evs of
             (acts, r) \<Rightarrow> (SpinDelay 500 # acts, r)))"

section \<open>Reading and RunMod\<close>

text \<open>
  Modelled from the spec: \<open>iso14443a_select_card\<close> is defined outside \<open>hf_newcaps.c\<close>. By the
  spec's section on the reader session one attempt either succeeds and returns the card's
  identifier bytes, which the call writes to \<open>uid\<close>, or fails with no identifier, so that
  \<open>uid\<close> is as before. The argument \<open>sel\<close> is the outcome of the attempt: \<open>Some\<close> of the
  contents of \<open>uid\<close> after a successful selection, or \<open>None\<close>.
\<close>

definition Reading :: "byte list option \<Rightarrow> byte list \<Rightarrow> retcode \<times> byte list" where
  "Reading sel uid = (case sel of Some found \<Rightarrow> (PM3_SUCCESS, found) | None \<Rightarrow> (PM3_EFATAL, uid))"

datatype button =
  BUTTON_NO_CLICK | BUTTON_SINGLE_CLICK | BUTTON_DOUBLE_CLICK | BUTTON_HOLD | BUTTON_ERROR

text \<open>The static array \<open>uid\<close> of \<open>RunMod\<close> as the program starts.\<close>

definition uid_initial :: "byte list" where
  "uid_initial = [0xbf, 0x88, 0x69, 0x3e, 0, 0, 0, 0, 0, 0]"

text \<open>
  The branch for a single click: one call of \<open>Reading\<close>, then \<open>uid[0]++\<close> when it failed
  and \<open>uid[0] < 255\<close>. The result is \<open>uid\<close> afterwards.
\<close>

definition single_click :: "byte list option \<Rightarrow> byte list \<Rightarrow> byte list" where
  "single_click sel uid =
     (case Reading sel uid of
        (ret, uid1) \<Rightarrow>
          if ret \<noteq> PM3_SUCCESS \<and> uid1 ! 0 < 255 then uid1[0 := uid1 ! 0 + 1] else uid1)"

text \<open>
  What one iteration of the loop of \<open>RunMod\<close> meets: whether the host has sent data, what
  the button does, the outcome of the card selection (looked at after a single click only),
  and what the reader does while \<open>Emulation\<close> runs.
\<close>

record run_input =
  data_available :: bool
  button_pressed :: button
  select_card :: "byte list option"
  reader_events :: "reader_event list"

datatype run_action =
    Reading_call "byte list"
  | Emulation_call "byte list" "action list"

text \<open>
  The loop of \<open>RunMod\<close>: the calls made, \<open>uid\<close> at the end, and \<open>retval\<close> once the loop is
  left (\<open>None\<close> while it runs: the inputs are used up, or \<open>Emulation\<close> has not returned).
\<close>

fun RunMod_loop ::
  "collaborators \<Rightarrow> byte list \<Rightarrow> retcode \<Rightarrow> run_input list
    \<Rightarrow> run_action list \<times> byte list \<times> retcode option" where
  "RunMod_loop env uid retval [] = ([], uid, None)"
| "RunMod_loop env uid retval (i # inputs) =
     (if data_available i then ([], uid, Some retval)
      else if button_pressed i = BUTTON_HOLD then ([], uid, Some retval)
      else
        (let clicked = (button_pressed i = BUTTON_SINGLE_CLICK);
             uid1 = (if clicked then single_click (select_card i) uid else uid);
             calls = (if clicked then [Reading_call uid] else [])
         in case Emulation env uid1 (reader_events i) of
              (acts, None) \<Rightarrow> (calls @ [Emulation_call uid1 acts], uid1, None)
            | (acts, Some rv) \<Rightarrow>
                (case RunMod_loop env uid1 rv inputs of
                   (calls', uid', r) \<Rightarrow> (calls @ Emulation_call uid1 acts # calls', uid', r))))"

text \<open>The identifiers with which \<open>Reading\<close> was called, in order.\<close>

fun reading_uids :: "run_action list \<Rightarrow> byte list list" where
  "reading_uids [] = []"
| "reading_uids (Reading_call u # cs) = u # reading_uids cs"
| "reading_uids (c # cs) = reading_uids cs"

section \<open>Collaborators for the examples\<close>

text \<open>
  The theorems below hold for all collaborators. Their instances at concrete inputs use
  these: the frame check CRC\_A of ISO/IEC 14443-3 (preset 0x6363, low byte first), a
  modulation buffer that holds every response whose bits with parity fit it, and
  precompiled responses of a card with a 4-byte identifier.
\<close>

definition crc_a_update :: "16 word \<Rightarrow> byte \<Rightarrow> 16 word" where
  "crc_a_update crc b =
     (let c = b XOR ucast crc;
          d = c XOR push_bit 4 c;
          w = (ucast d :: 16 word)
      in drop_bit 8 crc XOR push_bit 8 w XOR push_bit 3 w XOR drop_bit 4 w)"

definition crc_a :: "byte list \<Rightarrow> byte \<times> byte" where
  "crc_a bs = (let crc = foldl crc_a_update 0x6363 bs in (ucast crc, ucast (drop_bit 8 crc)))"

definition precompiled :: "byte list \<Rightarrow> tag_response_info" where
  "precompiled bs = \<lparr>response = bs, response_n = length bs\<rparr>"

definition example_responses :: "byte list \<Rightarrow> resp_index \<Rightarrow> tag_response_info" where
  "example_responses id4 i =
     (case i of
        RESP_INDEX_ATQA \<Rightarrow> precompiled [0x04, 0x00]
      | RESP_INDEX_UIDC1 \<Rightarrow> precompiled (id4 @ [foldl (XOR) 0 id4])
      | RESP_INDEX_SAKC1 \<Rightarrow> precompiled [0x28, 0xB4, 0xFC]
      | RESP_INDEX_RATS \<Rightarrow> precompiled [0x05, 0x78, 0x80, 0x71, 0x00, 0x6F, 0x7C])"

definition example_env :: collaborators where
  "example_env =
     \<lparr>SimulateIso14443aInit = (\<lambda>id4. Some (example_responses id4)),
      compute_crc = crc_a,
      prepare_tag_modulation = (\<lambda>bs size. length bs * 9 + 2 \<le> size)\<rparr>"

text \<open>
  An iteration of the loop of \<open>RunMod\<close> in which the button is clicked once, no card is
  selected, and the reader then breaks off the emulation at once.
\<close>

definition failed_click :: run_input where
  "failed_click =
     \<lparr>data_available = False, button_pressed = BUTTON_SINGLE_CLICK, select_card = None,
      reader_events = [NoCommand]\<rparr>"

section \<open>Notions of the specification\<close>

text \<open>
  A rule of the command table matches a received command as the specification words it:
  the command is long enough to hold the header and the pattern, and the bytes after the
  header are the pattern. Rules are numbered from 0 in table order.
\<close>

definition apdu_rule_matches :: "nat \<Rightarrow> nat \<Rightarrow> byte list \<Rightarrow> nat \<Rightarrow> bool" where
  "apdu_rule_matches i headerPrefixLen received receivedLen =
     (headerPrefixLen + length (p_apdu_cmd ! i) \<le> receivedLen \<and>
      take (length (p_apdu_cmd ! i)) (drop headerPrefixLen received) = p_apdu_cmd ! i)"

text \<open>
  The classifier's rules 1 to 6 as the specification lists them: the length of the command,
  its leading bytes, and the precompiled response that answers it (none for HALT). The
  first rule that applies decides.
\<close>

type_synonym canned_rule = "nat \<times> byte list \<times> resp_index option"

definition canned_rules :: "canned_rule list" where
  "canned_rules =
     [(1, [ISO14443A_CMD_REQA], Some RESP_INDEX_ATQA),
      (4, [ISO14443A_CMD_HALT], None),
      (1, [ISO14443A_CMD_WUPA], Some RESP_INDEX_ATQA),
      (2, [ISO14443A_CMD_ANTICOLL_OR_SELECT, 0x20], Some RESP_INDEX_UIDC1),
      (9, [ISO14443A_CMD_ANTICOLL_OR_SELECT, 0x70], Some RESP_INDEX_SAKC1),
      (4, [ISO14443A_CMD_RATS], Some RESP_INDEX_RATS)]"

definition canned_rule_applies :: "byte list \<Rightarrow> canned_rule \<Rightarrow> bool" where
  "canned_rule_applies cmd rule =
     (case rule of (n, leading, r) \<Rightarrow> length cmd = n \<and> take (length leading) cmd = leading)"

definition first_canned_rule :: "byte list \<Rightarrow> resp_index option option" where
  "first_canned_rule cmd =
     map_option (\<lambda>(n, leading, r). r) (find (canned_rule_applies cmd) canned_rules)"

text \<open>
  The response buffer of a state is sound when the list has the size of the array and the
  recorded length does not exceed it.
\<close>

definition response_buffer_ok :: "emu_state \<Rightarrow> bool" where
  "response_buffer_ok st =
     (length (response (dynamic_response_info st)) = DYNAMIC_RESPONSE_BUFFER_SIZE \<and>
      response_n (dynamic_response_info st) \<le> DYNAMIC_RESPONSE_BUFFER_SIZE)"

text \<open>
  The header length with which the I-blocks are handed to \<open>Reply2Reader\<close>, by first byte.
\<close>

definition header_length :: "byte \<Rightarrow> nat option" where
  "header_length c =
     (if c = 0x02 \<or> c = 0x03 then Some 1 else if c = 0x0B \<or> c = 0x0A then Some 2 else None)"

text \<open>
  A command of \<open>len\<close> bytes holds every window that \<open>Reply2Reader\<close> compares: each table
  command that passes the length guard also fits behind the header.
\<close>

definition windows_received :: "byte \<Rightarrow> nat \<Rightarrow> bool" where
  "windows_received c len =
     (case header_length c of
        None \<Rightarrow> True
      | Some h \<Rightarrow> list_all (\<lambda>cmd. length cmd \<le> len \<longrightarrow> h + length cmd \<le> len) p_apdu_cmd)"

text \<open>
  Two events deliver the same command when both are a failed reception, or both deliver the
  same bytes, at least one, in sound receive buffers, and the command holds every window
  that \<open>Reply2Reader\<close> compares. The buffers may differ behind the received bytes, as they
  do when different commands were received into them before.
\<close>

definition same_command :: "reader_event \<Rightarrow> reader_event \<Rightarrow> bool" where
  "same_command e e' =
     (case e of
        NoCommand \<Rightarrow> e' = NoCommand
      | Command rx len \<Rightarrow>
          (case e' of
             NoCommand \<Rightarrow> False
           | Command rx' len' \<Rightarrow>
               len' = len \<and> 0 < len \<and> take len rx' = take len rx \<and>
               receive_buffer_ok rx len \<and> receive_buffer_ok rx' len \<and>
               windows_received (rx ! 0) len))"

section \<open>Properties of Reply2Reader\<close>

lemma length_apdu_cmd [simp]: "length cmd01 = 7" "length cmd02 = 19" "length cmd03 = 5"
  by (simp_all add: cmd01_def cmd02_def cmd03_def)

lemma length_apdu_response [simp]:
  "length reply01 = 25" "length reply02 = 59" "length reply03 = 32"
  by (simp_all add: reply01_def reply02_def reply03_def)

lemma frame_memcpy_header:
  "length hdr = h \<Longrightarrow>
   take (h + length body) (memcpy (memcpy buf 0 hdr) h body) = hdr @ body"
  by (simp add: memcpy_def)

lemma length_memcpy:
  "off + length src \<le> length dst \<Longrightarrow> length (memcpy dst off src) = length dst"
  by (simp add: memcpy_def)

lemma window_prefix:
  "take n (drop h rx) = c \<Longrightarrow> m \<le> n \<Longrightarrow> take m (drop h rx) = take m c"
  by (metis min.absorb1 take_take)

lemma window_header:
  "take n (drop h rx) = c \<Longrightarrow> length c = n \<Longrightarrow> 0 < n \<Longrightarrow> length (take h rx) = h"
  by (cases "h \<le> length rx") auto

lemma apdu_cmds_differ:
  "take 7 cmd02 \<noteq> cmd01" "take 5 cmd01 \<noteq> cmd03" "take 5 cmd02 \<noteq> cmd03"
  by (simp_all add: cmd01_def cmd02_def cmd03_def)

lemma frame_hit:
  assumes "memcmp_eq rx h c" "0 < length c"
  shows "frame (dri\<lparr>response := memcpy (memcpy (response dri) 0 (take h rx)) h r,
                   response_n := h + length r\<rparr>) = take h rx @ r"
proof -
  have "length (take h rx) = h"
    using assms window_header [of "length c" h rx c] by (simp add: memcmp_eq_def)
  then show ?thesis
    by (simp add: frame_def frame_memcpy_header)
qed

text \<open>
  C1 (the code departs from the claim). The claim: a rule whose pattern does not fit
  between the header and the end of the received command is skipped. The code skips a rule
  only when the command is shorter than the pattern alone, and then compares the pattern
  with the bytes after the header, which reach past the received length. A 7-byte I-block
  \<open>02 00 A4 00 00 02 3F\<close> in a receive buffer that is zero behind it is answered as the
  8-byte select command of rule 1, although \<open>7 < 1 + 7\<close>. And when byte 5 of the buffer
  holds \<open>1E\<close> from an earlier command, the 5-byte command \<open>02 00 B0 95 00\<close>, for which all
  three rules are too long, is answered by rule 3.
\<close>

theorem Reply2Reader_short_command_matches:
  "7 < 1 + length cmd01 \<and>
   Reply2Reader \<lparr>response = replicate 64 0, response_n = 0\<rparr> 1
     ([0x02, 0x00, 0xA4, 0x00, 0x00, 0x02, 0x3F] @ replicate 249 0) 7
   = (0, \<lparr>response = 0x02 # reply01 @ replicate 38 0, response_n = 26\<rparr>) \<and>
   5 < 1 + length cmd01 \<and> 5 < 1 + length cmd02 \<and> 5 < 1 + length cmd03 \<and>
   Reply2Reader \<lparr>response = replicate 64 0, response_n = 0\<rparr> 1
     ([0x02, 0x00, 0xB0, 0x95, 0x00, 0x1E] @ replicate 250 0) 5
   = (0, \<lparr>response = 0x02 # reply03 @ replicate 31 0, response_n = 33\<rparr>)"
  by (simp add: Reply2Reader_def p_apdu_cmd_def p_apdu_response_def cmd01_def cmd02_def
      cmd03_def memcmp_eq_def memcpy_def reply01_def reply03_def)

text \<open>
  C3. When a rule of the table matches the received command, \<open>Reply2Reader\<close> returns 0, the
  response is the header (the first \<open>headerPrefixLen\<close> bytes of the command) followed by
  the reply of that rule, and \<open>response_n\<close> is the sum of their lengths. This holds for
  whichever rule matches, so no two rules match the same command, and the rule used is
  the first one that matches.
\<close>

theorem Reply2Reader_match:
  assumes i: "i < length p_apdu_cmd"
      and m: "apdu_rule_matches i headerPrefixLen received receivedLen"
  shows "fst (Reply2Reader dri headerPrefixLen received receivedLen) = 0 \<and>
         frame (snd (Reply2Reader dri headerPrefixLen received receivedLen))
           = take headerPrefixLen received @ p_apdu_response ! i \<and>
         response_n (snd (Reply2Reader dri headerPrefixLen received receivedLen))
           = headerPrefixLen + length (p_apdu_response ! i)"
proof -
  let ?w = "\<lambda>n. take n (drop headerPrefixLen received)"
  from i have "i = 0 \<or> i = 1 \<or> i = 2"
    by (auto simp: p_apdu_cmd_def)
  then consider (r1) "i = 0" | (r2) "i = 1" | (r3) "i = 2" by blast
  then show ?thesis
  proof cases
    case r1
    with m have w: "memcmp_eq received headerPrefixLen cmd01" and l: "7 \<le> receivedLen"
      by (simp_all add: apdu_rule_matches_def p_apdu_cmd_def memcmp_eq_def)
    have "Reply2Reader dri headerPrefixLen received receivedLen =
            (0, dri\<lparr>response := memcpy (memcpy (response dri) 0 (take headerPrefixLen received))
                                  headerPrefixLen reply01,
                    response_n := headerPrefixLen + length reply01\<rparr>)"
      using w l by (simp add: Reply2Reader_def p_apdu_cmd_def p_apdu_response_def)
    then show ?thesis
      using frame_hit [where dri = dri and r = reply01, OF w] r1
      by (simp add: p_apdu_response_def)
  next
    case r2
    with m have w: "memcmp_eq received headerPrefixLen cmd02" and l: "19 \<le> receivedLen"
      by (simp_all add: apdu_rule_matches_def p_apdu_cmd_def memcmp_eq_def)
    have "?w 7 = take 7 cmd02"
      using w window_prefix [of 19 headerPrefixLen received cmd02 7] by (simp add: memcmp_eq_def)
    then have n1: "\<not> memcmp_eq received headerPrefixLen cmd01"
      using apdu_cmds_differ by (simp add: memcmp_eq_def)
    have "Reply2Reader dri headerPrefixLen received receivedLen =
            (0, dri\<lparr>response := memcpy (memcpy (response dri) 0 (take headerPrefixLen received))
                                  headerPrefixLen reply02,
                    response_n := headerPrefixLen + length reply02\<rparr>)"
      using w l n1 by (simp add: Reply2Reader_def p_apdu_cmd_def p_apdu_response_def)
    then show ?thesis
      using frame_hit [where dri = dri and r = reply02, OF w] r2
      by (simp add: p_apdu_response_def)
  next
    case r3
    with m have w: "memcmp_eq received headerPrefixLen cmd03" and l: "5 \<le> receivedLen"
      by (simp_all add: apdu_rule_matches_def p_apdu_cmd_def memcmp_eq_def)
    have w5: "?w 5 = cmd03"
      using w by (simp add: memcmp_eq_def)
    have n1: "\<not> memcmp_eq received headerPrefixLen cmd01"
    proof
      assume "memcmp_eq received headerPrefixLen cmd01"
      then have "?w 5 = take 5 cmd01"
        using window_prefix [of 7 headerPrefixLen received cmd01 5] by (simp add: memcmp_eq_def)
      with w5 show False using apdu_cmds_differ by simp
    qed
    have n2: "\<not> memcmp_eq received headerPrefixLen cmd02"
    proof
      assume "memcmp_eq received headerPrefixLen cmd02"
      then have "?w 5 = take 5 cmd02"
        using window_prefix [of 19 headerPrefixLen received cmd02 5] by (simp add: memcmp_eq_def)
      with w5 show False using apdu_cmds_differ by simp
    qed
    have "Reply2Reader dri headerPrefixLen received receivedLen =
            (0, dri\<lparr>response := memcpy (memcpy (response dri) 0 (take headerPrefixLen received))
                                  headerPrefixLen reply03,
                    response_n := headerPrefixLen + length reply03\<rparr>)"
      using w l n1 n2 by (simp add: Reply2Reader_def p_apdu_cmd_def p_apdu_response_def)
    then show ?thesis
      using frame_hit [where dri = dri and r = reply03, OF w] r3
      by (simp add: p_apdu_response_def)
  qed
qed

text \<open>
  An instance: the I-block with card identifier \<open>0A 00\<close> that carries the select by name of
  rule 2 (index 1), followed by its two checksum bytes.
\<close>

theorem Reply2Reader_match_witness:
  "(1::nat) < length p_apdu_cmd \<and>
   apdu_rule_matches 1 2 ([0x0A, 0x00] @ cmd02 @ [0x12, 0x34] @ replicate 233 0) 23 \<and>
   fst (Reply2Reader \<lparr>response = replicate 64 0, response_n = 0\<rparr> 2
          ([0x0A, 0x00] @ cmd02 @ [0x12, 0x34] @ replicate 233 0) 23) = 0 \<and>
   frame (snd (Reply2Reader \<lparr>response = replicate 64 0, response_n = 0\<rparr> 2
          ([0x0A, 0x00] @ cmd02 @ [0x12, 0x34] @ replicate 233 0) 23)) = [0x0A, 0x00] @ reply02 \<and>
   response_n (snd (Reply2Reader \<lparr>response = replicate 64 0, response_n = 0\<rparr> 2
          ([0x0A, 0x00] @ cmd02 @ [0x12, 0x34] @ replicate 233 0) 23)) = 61"
proof -
  have l: "(1::nat) < length p_apdu_cmd"
    by (simp add: p_apdu_cmd_def)
  have m: "apdu_rule_matches 1 2 ([0x0A, 0x00] @ cmd02 @ [0x12, 0x34] @ replicate 233 0) 23"
    by (simp add: apdu_rule_matches_def p_apdu_cmd_def)
  show ?thesis
    using l m Reply2Reader_match [OF l m, of "\<lparr>response = replicate 64 0, response_n = 0\<rparr>"]
    by (simp add: p_apdu_response_def)
qed

text \<open>
  C5 (as stated it fails). The seven bytes \<open>00 A4 00 00 02 3F 00\<close> given to \<open>Reply2Reader\<close>
  with a header of 1 byte do not match rule 1: the first byte counts as the header, and
  the six bytes after it are not the pattern. No rule matches, the result is -1 with
  \<open>response_n = 0\<close>.
\<close>

theorem Reply2Reader_select_mf_no_header:
  "Reply2Reader \<lparr>response = replicate 64 0, response_n = 0\<rparr> 1
     ([0x00, 0xA4, 0x00, 0x00, 0x02, 0x3F, 0x00] @ replicate 249 0) 7
   = (- 1, \<lparr>response = replicate 64 0, response_n = 0\<rparr>)"
  by (simp add: Reply2Reader_def p_apdu_cmd_def p_apdu_response_def cmd01_def cmd02_def
      cmd03_def memcmp_eq_def)

text \<open>
  C5 (amended). The eight bytes made of a header byte \<open>h\<close> and the select command
  \<open>00 A4 00 00 02 3F 00\<close>, with a header of 1 byte, match rule 1: the result is 0, the response
  is \<open>h\<close> followed by \<open>reply01\<close>, and \<open>response_n\<close> is \<open>1 + length reply01\<close>. This holds
  for every header byte, whatever lies behind the command in the receive buffer and whatever
  the response buffer held before.
\<close>

theorem Reply2Reader_select_mf_after_header:
  "fst (Reply2Reader dri 1 (h # [0x00, 0xA4, 0x00, 0x00, 0x02, 0x3F, 0x00] @ rest) 8) = 0
   \<and> frame (snd (Reply2Reader dri 1 (h # [0x00, 0xA4, 0x00, 0x00, 0x02, 0x3F, 0x00] @ rest) 8))
     = h # reply01
   \<and> response_n (snd (Reply2Reader dri 1 (h # [0x00, 0xA4, 0x00, 0x00, 0x02, 0x3F, 0x00] @ rest) 8))
     = 1 + length reply01"
  by (simp add: Reply2Reader_def p_apdu_cmd_def p_apdu_response_def memcmp_eq_def cmd01_def
      memcpy_def frame_def)

section \<open>The response buffer during the emulation\<close>

lemmas iso_defs =
  ISO14443A_CMD_REQA_def ISO14443A_CMD_HALT_def ISO14443A_CMD_WUPA_def
  ISO14443A_CMD_ANTICOLL_OR_SELECT_def ISO14443A_CMD_RATS_def

lemmas emu_defs = Emulation_iteration_def classify_def switch_cmd_def answer_def Let_def

lemmas table_defs =
  Reply2Reader_def p_apdu_cmd_def p_apdu_response_def memcmp_eq_def cmd01_def cmd02_def cmd03_def

lemma Reply2Reader_from_length:
  assumes "length (response dri) = 64" "h \<le> 2"
      and "\<forall>(c, r) \<in> set t. length r \<le> 59"
  shows "length (response (snd (Reply2Reader_from t dri h rx len))) = 64 \<and>
         response_n (snd (Reply2Reader_from t dri h rx len)) \<le> 61"
  using assms
proof (induction t)
  case Nil
  then show ?case by simp
next
  case (Cons a t)
  obtain c r where a: "a = (c, r)" by (cases a)
  with Cons.prems have r: "length r \<le> 59" by simp
  have "length (memcpy (response dri) 0 (take h rx)) = 64"
    using Cons.prems(1,2) by (simp add: length_memcpy)
  then have "length (memcpy (memcpy (response dri) 0 (take h rx)) h r) = 64"
    using r Cons.prems(2) by (simp add: length_memcpy)
  then show ?case
    using Cons a r by auto
qed

lemma Reply2Reader_length:
  assumes "length (response dri) = 64" "h \<le> 2"
  shows "length (response (snd (Reply2Reader dri h rx len))) = 64 \<and>
         response_n (snd (Reply2Reader dri h rx len)) \<le> 61"
  unfolding Reply2Reader_def
  by (rule Reply2Reader_from_length [OF assms]) (simp add: p_apdu_cmd_def p_apdu_response_def)

lemma switch_cmd_length:
  assumes "length (response dri) = 64"
  shows "length (response (switch_cmd dri rx len)) = 64 \<and>
         response_n (switch_cmd dri rx len) \<le> 61"
  using assms Reply2Reader_length [OF assms, of 1 rx len] Reply2Reader_length [OF assms, of 2 rx len]
  by (simp add: switch_cmd_def Let_def length_memcpy)

lemma classify_length:
  assumes "length (response dri) = 64" "response_n dri = 0"
  shows "length (response (snd (classify p dri rx len))) = 64 \<and>
         response_n (snd (classify p dri rx len)) \<le> 61"
  using assms switch_cmd_length [OF assms(1), of rx len]
  by (simp add: classify_def)

lemma AddCrc14A_length:
  "n + 2 \<le> length buf \<Longrightarrow> length (AddCrc14A crc buf n) = length buf"
  by (simp add: AddCrc14A_def length_memcpy split: prod.split)

lemma answer_length:
  assumes "length (response dri) = 64" "response_n dri \<le> 61"
  shows "length (response (dynamic_response_info (fst (answer env responses p dri)))) = 64 \<and>
         response_n (dynamic_response_info (fst (answer env responses p dri))) \<le> 63"
  using assms by (auto simp: answer_def Let_def AddCrc14A_length split: resp_ptr.split)

lemma Emulation_iteration_length:
  assumes "length (response (dynamic_response_info st)) = 64"
  shows "length (response (dynamic_response_info (fst (Emulation_iteration env responses st rx len)))) = 64 \<and>
         response_n (dynamic_response_info (fst (Emulation_iteration env responses st rx len))) \<le> 63"
proof -
  obtain p d where c: "classify (p_response st) ((dynamic_response_info st)\<lparr>response_n := 0\<rparr>) rx len = (p, d)"
    by (cases "classify (p_response st) ((dynamic_response_info st)\<lparr>response_n := 0\<rparr>) rx len")
  have "length (response d) = 64 \<and> response_n d \<le> 61"
    using classify_length [of "(dynamic_response_info st)\<lparr>response_n := 0\<rparr>" "p_response st" rx len] assms c
    by simp
  then show ?thesis
    using answer_length [of d env responses p] c by (simp add: Emulation_iteration_def)
qed

text \<open>
  C8. The response buffer never overflows. It is sound when \<open>Emulation\<close> starts, and one
  iteration of the loop, for any received command, takes a sound buffer to a sound one: no
  write goes past the 64 bytes of the array (the list keeps its length, see \<open>memcpy\<close>), and
  the recorded length, checksum included, is at most
  \<open>2 + length reply02 + 2 = 63\<close>, the longest header with the longest reply and the two
  checksum bytes.
\<close>

theorem Emulation_response_buffer_bounded:
  "response_buffer_ok emu_state_initial \<and>
   2 + length reply02 + 2 < DYNAMIC_RESPONSE_BUFFER_SIZE \<and>
   (response_buffer_ok st \<longrightarrow>
      response_buffer_ok (fst (Emulation_iteration env responses st receivedCmd len)) \<and>
      response_n (dynamic_response_info (fst (Emulation_iteration env responses st receivedCmd len)))
        \<le> 2 + length reply02 + 2)"
  using Emulation_iteration_length [of st env responses receivedCmd len]
  by (auto simp: response_buffer_ok_def emu_state_initial_def DYNAMIC_RESPONSE_BUFFER_SIZE_def)

text \<open>
  An instance that reaches the bound: the first command of a session is the I-block with
  card identifier that carries the select by name, answered by the longest reply.
\<close>

theorem Emulation_response_buffer_bounded_witness:
  "response_buffer_ok emu_state_initial \<and>
   response_buffer_ok
     (fst (Emulation_iteration example_env (example_responses (take 4 uid_initial))
        emu_state_initial ([0x0A, 0x00] @ cmd02 @ [0x12, 0x34] @ replicate 233 0) 23)) \<and>
   response_n (dynamic_response_info
     (fst (Emulation_iteration example_env (example_responses (take 4 uid_initial))
        emu_state_initial ([0x0A, 0x00] @ cmd02 @ [0x12, 0x34] @ replicate 233 0) 23))) = 63"
proof -
  have h: "response_buffer_ok emu_state_initial"
    by (simp add: response_buffer_ok_def emu_state_initial_def DYNAMIC_RESPONSE_BUFFER_SIZE_def)
  have n: "response_n (dynamic_response_info
     (fst (Emulation_iteration example_env (example_responses (take 4 uid_initial))
        emu_state_initial ([0x0A, 0x00] @ cmd02 @ [0x12, 0x34] @ replicate 233 0) 23))) = 63"
    by (simp add: emu_defs iso_defs table_defs emu_state_initial_def)
  show ?thesis
    using h n Emulation_response_buffer_bounded [of emu_state_initial example_env
        "example_responses (take 4 uid_initial)"
        "[0x0A, 0x00] @ cmd02 @ [0x12, 0x34] @ replicate 233 0" 23]
    by simp
qed

section \<open>The classifier and the replies of the emulation\<close>

lemma take1_nth: "0 < length xs \<Longrightarrow> take (Suc 0) xs = [xs ! 0]"
  by (cases xs) simp_all

lemma take2_nth: "1 < length xs \<Longrightarrow> take (Suc (Suc 0)) xs = [xs ! 0, xs ! 1]"
  by (cases xs; cases "tl xs") simp_all

lemma first_canned_rule_cases:
  assumes ok: "receive_buffer_ok receivedCmd len"
      and rule: "first_canned_rule (take len receivedCmd) = Some r"
  shows "receivedCmd ! 0 = ISO14443A_CMD_REQA \<and> len = 1 \<and> r = Some RESP_INDEX_ATQA \<or>
         receivedCmd ! 0 = ISO14443A_CMD_HALT \<and> len = 4 \<and> r = None \<or>
         receivedCmd ! 0 = ISO14443A_CMD_WUPA \<and> len = 1 \<and> r = Some RESP_INDEX_ATQA \<or>
         receivedCmd ! 1 = 0x20 \<and> receivedCmd ! 0 = ISO14443A_CMD_ANTICOLL_OR_SELECT \<and> len = 2
           \<and> r = Some RESP_INDEX_UIDC1 \<or>
         receivedCmd ! 1 = 0x70 \<and> receivedCmd ! 0 = ISO14443A_CMD_ANTICOLL_OR_SELECT \<and> len = 9
           \<and> r = Some RESP_INDEX_SAKC1 \<or>
         receivedCmd ! 0 = ISO14443A_CMD_RATS \<and> len = 4 \<and> r = Some RESP_INDEX_RATS"
proof -
  let ?cmd = "take len receivedCmd"
  have l: "length ?cmd = len"
    using ok by (simp add: receive_buffer_ok_def)
  have ne: "0 < length receivedCmd" "1 < length receivedCmd"
    using ok by (auto simp: receive_buffer_ok_def)
  have t1: "take (Suc 0) receivedCmd = [receivedCmd ! 0]"
    using ne(1) by (rule take1_nth)
  have t2: "take (Suc (Suc 0)) receivedCmd = [receivedCmd ! 0, receivedCmd ! Suc 0]"
    using take2_nth [OF ne(2)] by simp
  from rule l show ?thesis
    unfolding first_canned_rule_def canned_rules_def canned_rule_applies_def
    by (simp split: if_splits; simp add: t1 t2)
qed

lemma Emulation_iteration_canned:
  assumes "classify (p_response st) ((dynamic_response_info st)\<lparr>response_n := 0\<rparr>)
             receivedCmd len = (Precompiled i, (dynamic_response_info st)\<lparr>response_n := 0\<rparr>)"
  shows "Emulation_iteration env responses st receivedCmd len =
           (\<lparr>dynamic_response_info = (dynamic_response_info st)\<lparr>response_n := 0\<rparr>,
             p_response = NULL\<rparr>,
            [EmSendPrecompiledCmd (frame (responses i)), LED_C_OFF])"
  using assms by (simp add: Emulation_iteration_def answer_def)

lemma Emulation_iteration_halt:
  assumes "receivedCmd ! 0 = ISO14443A_CMD_HALT" "len = 4"
  shows "Emulation_iteration env responses st receivedCmd len =
           (\<lparr>dynamic_response_info = (dynamic_response_info st)\<lparr>response_n := 0\<rparr>,
             p_response = NULL\<rparr>, [])"
  using assms by (simp add: Emulation_iteration_def answer_def classify_def iso_defs)

text \<open>
  C2. The classifier is an ordered decision list: when the first of the rules 1 to 6 that
  applies to the received command (its \<open>len\<close> bytes in the receive buffer) names a
  precompiled response, exactly that response is transmitted, as it was built; for HALT
  nothing is transmitted. No checksum is appended: the response buffer is not written.
\<close>

theorem Emulation_canned_reply:
  assumes ok: "receive_buffer_ok receivedCmd len"
      and rule: "first_canned_rule (take len receivedCmd) = Some r"
  shows "transmitted (snd (Emulation_iteration env responses st receivedCmd len)) =
           (case r of None \<Rightarrow> [] | Some i \<Rightarrow> [frame (responses i)]) \<and>
         response (dynamic_response_info (fst (Emulation_iteration env responses st receivedCmd len)))
           = response (dynamic_response_info st)"
proof -
  let ?c = "classify (p_response st) ((dynamic_response_info st)\<lparr>response_n := 0\<rparr>) receivedCmd len"
  from first_canned_rule_cases [OF ok rule]
  consider (halt) "receivedCmd ! 0 = ISO14443A_CMD_HALT" "len = 4" "r = None"
    | (canned) i where "r = Some i" "?c = (Precompiled i, (dynamic_response_info st)\<lparr>response_n := 0\<rparr>)"
    by (auto simp: classify_def iso_defs)
  then show ?thesis
  proof cases
    case halt
    then show ?thesis by (simp add: Emulation_iteration_halt)
  next
    case canned
    then show ?thesis by (simp add: Emulation_iteration_canned)
  qed
qed


text \<open>An instance: the anticollision command \<open>93 20\<close> is answered by the identifier.\<close>

theorem Emulation_canned_reply_witness:
  "receive_buffer_ok ([0x93, 0x20] @ replicate 254 0) 2 \<and>
   first_canned_rule (take 2 ([0x93, 0x20] @ replicate 254 0)) = Some (Some RESP_INDEX_UIDC1) \<and>
   transmitted (snd (Emulation_iteration example_env (example_responses (take 4 uid_initial))
      emu_state_initial ([0x93, 0x20] @ replicate 254 0) 2)) = [[0xbf, 0x88, 0x69, 0x3e, 0x60]]"
proof -
  have ok: "receive_buffer_ok ([0x93, 0x20] @ replicate 254 0) 2"
    by (simp add: receive_buffer_ok_def)
  have rule: "first_canned_rule (take 2 ([0x93, 0x20] @ replicate 254 0)) = Some (Some RESP_INDEX_UIDC1)"
    by (simp add: first_canned_rule_def canned_rules_def canned_rule_applies_def iso_defs)
  have f: "frame (example_responses (take 4 uid_initial) RESP_INDEX_UIDC1)
             = [0xbf, 0x88, 0x69, 0x3e, 0x60]"
    by (simp add: example_responses_def precompiled_def frame_def uid_initial_def)
  show ?thesis
    using ok rule f
      Emulation_canned_reply [OF ok rule, of example_env
        "example_responses (take 4 uid_initial)" emu_state_initial]
    by simp
qed

text \<open>
  C10. \<open>Emulation\<close> never returns \<open>PM3_SUCCESS\<close>. When the initialisation of the precompiled
  responses fails it returns \<open>PM3_EFATAL\<close> before any command is awaited. Otherwise it
  returns \<open>PM3_EOPABORTED\<close> when a reception fails, and as long as none fails it does not
  return: the \<open>return PM3_SUCCESS\<close> behind the loop is never reached.
\<close>

theorem Emulation_never_returns_success:
  "snd (Emulation env uid evs) \<noteq> Some PM3_SUCCESS \<and>
   (SimulateIso14443aInit env (take 4 uid) = None \<longrightarrow>
      Emulation env uid evs = ([SpinDelay 500, reply_ng PM3_EINIT], Some PM3_EFATAL)) \<and>
   (SimulateIso14443aInit env (take 4 uid) \<noteq> None \<longrightarrow>
      snd (Emulation env uid evs) = (if NoCommand \<in> set evs then Some PM3_EOPABORTED else None))"
proof -
  have loop: "snd (Emulation_loop env responses st evs)
                = (if NoCommand \<in> set evs then Some PM3_EOPABORTED else None)" for responses st
  proof (induction evs arbitrary: st)
    case Nil
    then show ?case by simp
  next
    case (Cons e evs)
    show ?case
    proof (cases e)
      case NoCommand
      then show ?thesis by simp
    next
      case (Command receivedCmd len)
      obtain st' acts where "Emulation_iteration env responses st receivedCmd len = (st', acts)"
        by (cases "Emulation_iteration env responses st receivedCmd len")
      then have "snd (Emulation_loop env responses st (e # evs))
                   = snd (Emulation_loop env responses st' evs)"
        using Command by (simp split: prod.split)
      then show ?thesis
        using Cons.IH [of st'] Command by simp
    qed
  qed
  show ?thesis
  proof (cases "SimulateIso14443aInit env (take 4 uid)")
    case None
    then show ?thesis by (simp add: Emulation_def)
  next
    case (Some responses)
    then have "snd (Emulation env uid evs) = snd (Emulation_loop env responses emu_state_initial evs)"
      by (simp add: Emulation_def split: prod.split)
    then show ?thesis
      using Some loop [of responses emu_state_initial] by simp
  qed
qed
theorem Emulation_never_returns_success_witness:
  "SimulateIso14443aInit example_env (take 4 uid_initial) \<noteq> None \<and>
   snd (Emulation example_env uid_initial [Command ([0x26] @ replicate 255 0) 1, NoCommand])
     = Some PM3_EOPABORTED \<and>
   SimulateIso14443aInit (example_env\<lparr>SimulateIso14443aInit := \<lambda>id4. None\<rparr>) (take 4 uid_initial)
     = None \<and>
   Emulation (example_env\<lparr>SimulateIso14443aInit := \<lambda>id4. None\<rparr>) uid_initial
       [Command ([0x26] @ replicate 255 0) 1, NoCommand]
     = ([SpinDelay 500, reply_ng PM3_EINIT], Some PM3_EFATAL)"
  using Emulation_never_returns_success [of example_env uid_initial
          "[Command ([0x26] @ replicate 255 0) 1, NoCommand]"]
        Emulation_never_returns_success [of "example_env\<lparr>SimulateIso14443aInit := \<lambda>id4. None\<rparr>"
          uid_initial "[Command ([0x26] @ replicate 255 0) 1, NoCommand]"]
  by (simp add: example_env_def)

section \<open>Received bytes and the rest of the receive buffer\<close>

lemma window_cong:
  assumes "take len rx1 = take len rx2" "h + n \<le> len"
  shows "take n (drop h rx1) = take n (drop h rx2)"
proof -
  have w: "take n (drop h rx) = take n (drop h (take len rx))" for rx
    using assms(2) by (simp add: drop_take)
  have "take n (drop h rx1) = take n (drop h (take len rx1))"
    by (rule w)
  also have "\<dots> = take n (drop h (take len rx2))"
    using assms(1) by simp
  also have "\<dots> = take n (drop h rx2)"
    by (rule w [symmetric])
  finally show ?thesis .
qed

lemma header_cong:
  assumes "take len rx1 = take len rx2" "h \<le> len"
  shows "take h rx1 = take h rx2"
  using assms by (metis min.absorb1 take_take)

lemma nth_from_take:
  assumes "take len xs = take len ys" "i < len" "i < length xs" "i < length ys"
  shows "xs ! i = ys ! i"
  using assms by (metis nth_take)


section \<open>Commands that are not answered\<close>

lemma crc_a_ping: "crc_a [0xAB, 0x01] = (0x7E, 0x44)"
  by (simp add: crc_a_def crc_a_update_def)

lemma transmitted_append: "transmitted (as @ bs) = transmitted as @ transmitted bs"
  by (induction as rule: transmitted.induct) simp_all

lemma Emulation_iteration_chaining:
  assumes "p_response st = NULL" and "receivedCmd ! 0 = c" "c = 0x1A \<or> c = 0x1B"
  shows "Emulation_iteration env responses st receivedCmd len =
           (\<lparr>dynamic_response_info = (dynamic_response_info st)\<lparr>response_n := 0\<rparr>,
             p_response = NULL\<rparr>, [])"
proof -
  have "classify NULL ((dynamic_response_info st)\<lparr>response_n := 0\<rparr>) receivedCmd len
          = (NULL, (dynamic_response_info st)\<lparr>response_n := 0\<rparr>)"
    using assms(2,3) by (auto simp add: classify_def switch_cmd_def iso_defs)
  then show ?thesis
    using assms(1) by (simp add: Emulation_iteration_def answer_def)
qed

lemma Emulation_iteration_silent:
  assumes "p_response st = NULL"
      and "receivedCmd ! 0 = ISO14443A_CMD_HALT \<and> len = 4 \<or>
           receivedCmd ! 0 = 0x1A \<or> receivedCmd ! 0 = 0x1B"
  shows "Emulation_iteration env responses st receivedCmd len =
           (\<lparr>dynamic_response_info = (dynamic_response_info st)\<lparr>response_n := 0\<rparr>,
             p_response = NULL\<rparr>, [])"
proof -
  from assms(2) consider (halt) "receivedCmd ! 0 = ISO14443A_CMD_HALT" "len = 4"
    | (chaining) "receivedCmd ! 0 = 0x1A \<or> receivedCmd ! 0 = 0x1B"
    by blast
  then show ?thesis
  proof cases
    case halt
    then show ?thesis by (rule Emulation_iteration_halt)
  next
    case chaining
    with assms(1) show ?thesis
      using Emulation_iteration_chaining [of st receivedCmd "receivedCmd ! 0"] by blast
  qed
qed

lemma Emulation_iteration_reset:
  "Emulation_iteration env responses
     \<lparr>dynamic_response_info = (dynamic_response_info st)\<lparr>response_n := 0\<rparr>,
      p_response = p_response st\<rparr> receivedCmd len
   = Emulation_iteration env responses st receivedCmd len"
  by (simp add: Emulation_iteration_def)

lemma Emulation_loop_reset:
  "Emulation_loop env responses
     \<lparr>dynamic_response_info = (dynamic_response_info st)\<lparr>response_n := 0\<rparr>,
      p_response = p_response st\<rparr> evs
   = Emulation_loop env responses st evs"
proof (cases evs)
  case Nil
  then show ?thesis by simp
next
  case (Cons e es)
  then show ?thesis
    by (cases e) (simp_all add: Emulation_iteration_reset)
qed

lemma answer_p_response:
  "p_response (fst (answer env responses p dri)) = NULL \<or>
   p_response (fst (answer env responses p dri)) = p \<and> 0 < response_n dri"
  by (simp add: answer_def Let_def split: resp_ptr.split)

lemma classify_p_response:
  "fst (classify p dri rx len) = p \<or> snd (classify p dri rx len) = dri"
  by (simp add: classify_def)

lemma Emulation_iteration_null:
  assumes "p_response st = NULL"
  shows "p_response (fst (Emulation_iteration env responses st receivedCmd len)) = NULL"
proof -
  let ?dri = "(dynamic_response_info st)\<lparr>response_n := 0\<rparr>"
  obtain p d where c: "classify (p_response st) ?dri receivedCmd len = (p, d)"
    by (cases "classify (p_response st) ?dri receivedCmd len")
  then have "p = NULL \<or> response_n d = 0"
    using classify_p_response [of "p_response st" ?dri receivedCmd len] assms by auto
  then show ?thesis
    using answer_p_response [of env responses p d] c
    by (auto simp: Emulation_iteration_def)
qed

lemma Emulation_loop_silent:
  assumes "p_response st = NULL"
      and "receivedCmd ! 0 = ISO14443A_CMD_HALT \<and> len = 4 \<or>
           receivedCmd ! 0 = 0x1A \<or> receivedCmd ! 0 = 0x1B"
  shows "transmitted (fst (Emulation_loop env responses st (before @ Command receivedCmd len # after)))
           = transmitted (fst (Emulation_loop env responses st (before @ after))) \<and>
         snd (Emulation_loop env responses st (before @ Command receivedCmd len # after))
           = snd (Emulation_loop env responses st (before @ after))"
  using assms(1)
proof (induction before arbitrary: st)
  case Nil
  have "Emulation_loop env responses st (Command receivedCmd len # after) =
          (LED_C_ON # fst (Emulation_loop env responses st after),
           snd (Emulation_loop env responses st after))"
    using Emulation_iteration_silent [OF Nil assms(2), of env responses]
      Emulation_loop_reset [of env responses st after] Nil
    by (simp add: split_beta)
  then show ?case by simp
next
  case (Cons e es)
  show ?case
  proof (cases e)
    case NoCommand
    then show ?thesis by simp
  next
    case (Command rx n)
    obtain st' acts where it: "Emulation_iteration env responses st rx n = (st', acts)"
      by (cases "Emulation_iteration env responses st rx n")
    then have "p_response st' = NULL"
      using Emulation_iteration_null [OF Cons.prems, of env responses rx n] by simp
    from Cons.IH [OF this] show ?thesis
      using Command it by (simp add: transmitted_append split_beta)
  qed
qed

text \<open>
  C4 (as stated it fails). Nothing is transmitted for a HALT, but the loop keeps no record
  of it: the next command is answered like any other. Here a session receives a HALT and
  then the probe \<open>BA\<close>, which is neither REQUEST nor WAKEUP, and the probe is answered with
  \<open>AB 01\<close> and its checksum.
\<close>

theorem Emulation_answers_after_halt:
  "transmitted (fst (Emulation example_env uid_initial
      [Command ([0x50, 0x00, 0x57, 0xCD] @ replicate 252 0) 4,
       Command ([0xBA, 0x00] @ replicate 254 0) 2]))
   = [[0xAB, 0x01, 0x7E, 0x44]]"
  by (simp add: Emulation_def example_env_def emu_defs iso_defs emu_state_initial_def
      DYNAMIC_RESPONSE_BUFFER_SIZE_def DYNAMIC_MODULATION_BUFFER_SIZE_def
      AddCrc14A_def memcpy_def frame_def crc_a_ping)

text \<open>
  A silent command does leave its bytes in the receive buffer. A later I-block that is
  shorter than a window \<open>Reply2Reader\<close> compares is matched against them: after the
  chaining command \<open>1A 00 B0 95 00 1E\<close> the five bytes \<open>02 00 B0 95 00\<close> are answered by
  rule 3, and without the chaining command they are not answered. The lemmas that follow
  therefore compare sessions on commands that hold every compared window.
\<close>

lemma Emulation_chaining_leaves_bytes:
  "transmitted (fst (Emulation example_env uid_initial
      [Command ([0x1A, 0x00, 0xB0, 0x95, 0x00, 0x1E] @ replicate 250 0) 6,
       Command ([0x02, 0x00, 0xB0, 0x95, 0x00, 0x1E] @ replicate 250 0) 5])) \<noteq> [] \<and>
   transmitted (fst (Emulation example_env uid_initial
      [Command ([0x02, 0x00, 0xB0, 0x95, 0x00] @ replicate 251 0) 5])) = []"
  by (simp add: Emulation_def example_env_def emu_defs iso_defs table_defs emu_state_initial_def
      DYNAMIC_RESPONSE_BUFFER_SIZE_def DYNAMIC_MODULATION_BUFFER_SIZE_def
      AddCrc14A_def memcpy_def frame_def split_beta)

lemma Reply2Reader_from_tail:
  assumes rx: "take len rx1 = take len rx2"
      and t: "\<forall>(c, r) \<in> set t. 0 < length c \<and> (length c \<le> len \<longrightarrow> h + length c \<le> len)"
  shows "Reply2Reader_from t dri h rx1 len = Reply2Reader_from t dri h rx2 len"
  using t
proof (induction t)
  case Nil
  then show ?case by simp
next
  case (Cons a t)
  obtain c r where a: "a = (c, r)" by (cases a)
  show ?case
  proof (cases "len < length c")
    case True
    then show ?thesis using Cons a by simp
  next
    case False
    with Cons.prems a have fit: "h + length c \<le> len" by auto
    have same: "memcmp_eq rx1 h c = memcmp_eq rx2 h c"
      using window_cong [OF rx fit] by (simp add: memcmp_eq_def)
    have "take h rx1 = take h rx2"
      using header_cong [OF rx, of h] fit by simp
    then show ?thesis
      using Cons a same False by simp
  qed
qed

lemma Reply2Reader_tail:
  assumes rx: "take len rx1 = take len rx2"
      and w: "list_all (\<lambda>cmd. length cmd \<le> len \<longrightarrow> h + length cmd \<le> len) p_apdu_cmd"
  shows "Reply2Reader dri h rx1 len = Reply2Reader dri h rx2 len"
  unfolding Reply2Reader_def
  by (rule Reply2Reader_from_tail [OF rx])
    (use w in \<open>simp add: p_apdu_cmd_def p_apdu_response_def cmd01_def cmd02_def cmd03_def\<close>)

lemma switch_cmd_tail:
  assumes rx: "take len rx1 = take len rx2"
      and first: "rx1 ! 0 = rx2 ! 0"
      and w: "windows_received (rx1 ! 0) len"
  shows "switch_cmd dri rx1 len = switch_cmd dri rx2 len"
proof (cases "header_length (rx1 ! 0)")
  case None
  then have "rx1 ! 0 \<noteq> 0x02" "rx1 ! 0 \<noteq> 0x03" "rx1 ! 0 \<noteq> 0x0B" "rx1 ! 0 \<noteq> 0x0A"
    by (auto simp: header_length_def split: if_splits)
  then show ?thesis
    using first by (simp add: switch_cmd_def Let_def)
next
  case (Some h)
  then have fit: "list_all (\<lambda>cmd. length cmd \<le> len \<longrightarrow> h + length cmd \<le> len) p_apdu_cmd"
    using w by (simp add: windows_received_def)
  from Some consider (one) "rx1 ! 0 = 0x02 \<or> rx1 ! 0 = 0x03" "h = 1"
    | (two) "rx1 ! 0 \<noteq> 0x02" "rx1 ! 0 \<noteq> 0x03" "rx1 ! 0 = 0x0B \<or> rx1 ! 0 = 0x0A" "h = 2"
    by (auto simp: header_length_def split: if_splits)
  then show ?thesis
  proof cases
    case one
    then show ?thesis
      using Reply2Reader_tail [OF rx fit, of dri] first
      by (simp add: switch_cmd_def Let_def)
  next
    case two
    then show ?thesis
      using Reply2Reader_tail [OF rx fit, of dri] first
      by (simp add: switch_cmd_def Let_def)
  qed
qed

lemma classify_tail:
  assumes rx: "take len rx1 = take len rx2"
      and l: "receive_buffer_ok rx1 len" "receive_buffer_ok rx2 len" and pos: "0 < len"
      and w: "windows_received (rx1 ! 0) len"
  shows "classify p dri rx1 len = classify p dri rx2 len"
proof -
  have ne: "0 < length rx1" "0 < length rx2" "1 < length rx1" "1 < length rx2"
    using l unfolding receive_buffer_ok_def by linarith+
  have first: "rx1 ! 0 = rx2 ! 0"
    by (rule nth_from_take [OF rx pos ne(1) ne(2)])
  have second: "rx1 ! 1 = rx2 ! 1" if "len = 2 \<or> len = 9"
  proof -
    from that have "1 < len" by auto
    then show ?thesis
      by (rule nth_from_take [OF rx _ ne(3) ne(4)])
  qed
  note sw = switch_cmd_tail [OF rx first w, of dri]
  show ?thesis
  proof (cases "len = 2 \<or> len = 9")
    case True
    then show ?thesis
      using first second sw by (auto simp: classify_def)
  next
    case False
    then show ?thesis
      using first sw by (auto simp: classify_def)
  qed
qed

lemma Emulation_iteration_tail:
  assumes "same_command (Command rx1 len1) (Command rx2 len2)"
  shows "Emulation_iteration env responses st rx1 len1 = Emulation_iteration env responses st rx2 len2"
proof -
  from assms have len: "len2 = len1" and pos: "0 < len1" and rx: "take len1 rx1 = take len1 rx2"
    and l: "receive_buffer_ok rx1 len1" "receive_buffer_ok rx2 len1"
    and w: "windows_received (rx1 ! 0) len1"
    by (simp_all add: same_command_def)
  show ?thesis
    using classify_tail [OF rx l pos w] len by (simp add: Emulation_iteration_def)
qed

lemma Emulation_loop_tail:
  assumes "list_all2 same_command evs evs'"
  shows "Emulation_loop env responses st evs = Emulation_loop env responses st evs'"
  using assms
proof (induction arbitrary: st rule: list_all2_induct)
  case Nil
  then show ?case by simp
next
  case (Cons e es e' es')
  show ?case
  proof (cases e)
    case NoCommand
    with Cons.hyps(1) have "e' = NoCommand" by (simp add: same_command_def)
    with NoCommand show ?thesis by simp
  next
    case (Command rx len)
    with Cons.hyps(1) obtain rx' len' where e': "e' = Command rx' len'"
      by (cases e') (simp_all add: same_command_def)
    have "Emulation_iteration env responses st rx len = Emulation_iteration env responses st rx' len'"
      using Cons.hyps(1) Command e' by (simp add: Emulation_iteration_tail)
    then show ?thesis
      using Command e' Cons.IH by simp
  qed
qed

lemma Emulation_loop_append_tail:
  assumes "list_all2 same_command evs evs'"
  shows "Emulation_loop env responses st (pre @ evs) = Emulation_loop env responses st (pre @ evs')"
proof (induction pre arbitrary: st)
  case Nil
  then show ?case using Emulation_loop_tail [OF assms] by simp
next
  case (Cons e es)
  then show ?case by (cases e) simp_all
qed

text \<open>
  C4 (amended). For a HALT (length 4, first byte the HALT code) and for a chaining command
  (first byte \<open>1A\<close> or \<open>1B\<close>) nothing is transmitted: the frames of the session up to and
  including the command are those transmitted before it. No halted state is kept. The
  command changes nothing in the session but the contents of the receive buffer: with the
  same contents of the receive buffer at each later command (\<open>rest\<close>), the frames
  transmitted and the result are those of the session without the command. And whatever
  the command left in the receive buffer, when the commands that follow (\<open>after\<close>, and
  \<open>after'\<close> in the session without the command) have the same bytes, at least one each,
  and hold every window that \<open>Reply2Reader\<close> compares, the frames transmitted and the
  result are again those of the session without the command.
\<close>

theorem Emulation_silent_command_transparent:
  assumes "receivedCmd ! 0 = ISO14443A_CMD_HALT \<and> len = 4 \<or>
           receivedCmd ! 0 = 0x1A \<or> receivedCmd ! 0 = 0x1B"
  shows "transmitted (fst (Emulation env uid (before @ [Command receivedCmd len])))
           = transmitted (fst (Emulation env uid before)) \<and>
         transmitted (fst (Emulation env uid (before @ Command receivedCmd len # rest)))
           = transmitted (fst (Emulation env uid (before @ rest))) \<and>
         snd (Emulation env uid (before @ Command receivedCmd len # rest))
           = snd (Emulation env uid (before @ rest)) \<and>
         (list_all2 same_command after after' \<longrightarrow>
            transmitted (fst (Emulation env uid (before @ Command receivedCmd len # after)))
              = transmitted (fst (Emulation env uid (before @ after'))) \<and>
            snd (Emulation env uid (before @ Command receivedCmd len # after))
              = snd (Emulation env uid (before @ after')))"
proof (cases "SimulateIso14443aInit env (take 4 uid)")
  case None
  then show ?thesis by (simp add: Emulation_def)
next
  case (Some responses)
  have n: "p_response emu_state_initial = NULL"
    by (simp add: emu_state_initial_def)
  have drop: "transmitted (fst (Emulation env uid (before @ Command receivedCmd len # evs)))
                = transmitted (fst (Emulation env uid (before @ evs))) \<and>
              snd (Emulation env uid (before @ Command receivedCmd len # evs))
                = snd (Emulation env uid (before @ evs))" for evs
    using Emulation_loop_silent [OF n assms, of env responses before evs] Some
    by (simp add: Emulation_def split_beta)
  have tail: "Emulation env uid (before @ after) = Emulation env uid (before @ after')"
    if "list_all2 same_command after after'"
    using Emulation_loop_append_tail [OF that, of env responses emu_state_initial before] Some
    by (simp add: Emulation_def)
  show ?thesis
    using drop [of "[]"] drop [of rest] drop [of after] tail by simp
qed

text \<open>
  Two instances: a HALT between a REQUEST and the probe \<open>BA\<close>; and a chaining command of 8
  bytes before a read command of 6 bytes, which is received in front of the last two bytes
  of the chaining command in the one session and in front of zeros in the other.
\<close>

theorem Emulation_silent_command_transparent_witness:
  "(([0x50, 0x00, 0x57, 0xCD] @ replicate 252 0) ! 0 = ISO14443A_CMD_HALT \<and> (4::nat) = 4 \<or>
    ([0x50, 0x00, 0x57, 0xCD] @ replicate 252 0) ! 0 = (0x1A::byte) \<or>
    ([0x50, 0x00, 0x57, 0xCD] @ replicate 252 0) ! 0 = (0x1B::byte)) \<and>
   transmitted (fst (Emulation example_env uid_initial
      ([Command ([0x26] @ replicate 255 0) 1] @
       Command ([0x50, 0x00, 0x57, 0xCD] @ replicate 252 0) 4 #
       [Command ([0xBA, 0x00] @ replicate 254 0) 2])))
   = [[0x04, 0x00], [0xAB, 0x01, 0x7E, 0x44]] \<and>
   (([0x1A, 0x00, 0xB0, 0x95, 0x00, 0x1E, 0x77, 0x88] @ replicate 248 0) ! 0 = ISO14443A_CMD_HALT
      \<and> (8::nat) = 4 \<or>
    ([0x1A, 0x00, 0xB0, 0x95, 0x00, 0x1E, 0x77, 0x88] @ replicate 248 0) ! 0 = (0x1A::byte) \<or>
    ([0x1A, 0x00, 0xB0, 0x95, 0x00, 0x1E, 0x77, 0x88] @ replicate 248 0) ! 0 = (0x1B::byte)) \<and>
   list_all2 same_command
     [Command ([0x02, 0x00, 0xB0, 0x95, 0x00, 0x1E, 0x77, 0x88] @ replicate 248 0) 6]
     [Command ([0x02, 0x00, 0xB0, 0x95, 0x00, 0x1E] @ replicate 250 0) 6] \<and>
   transmitted (fst (Emulation example_env uid_initial
      ([Command ([0x26] @ replicate 255 0) 1] @
       Command ([0x1A, 0x00, 0xB0, 0x95, 0x00, 0x1E, 0x77, 0x88] @ replicate 248 0) 8 #
       [Command ([0x02, 0x00, 0xB0, 0x95, 0x00, 0x1E, 0x77, 0x88] @ replicate 248 0) 6])))
   = transmitted (fst (Emulation example_env uid_initial
      ([Command ([0x26] @ replicate 255 0) 1] @
       [Command ([0x02, 0x00, 0xB0, 0x95, 0x00, 0x1E] @ replicate 250 0) 6])))"
proof -
  have h: "([0x50, 0x00, 0x57, 0xCD] @ replicate 252 0) ! 0 = ISO14443A_CMD_HALT \<and> (4::nat) = 4 \<or>
           ([0x50, 0x00, 0x57, 0xCD] @ replicate 252 0) ! 0 = (0x1A::byte) \<or>
           ([0x50, 0x00, 0x57, 0xCD] @ replicate 252 0) ! 0 = (0x1B::byte)"
    by (simp add: iso_defs)
  have e: "transmitted (fst (Emulation example_env uid_initial
             ([Command ([0x26] @ replicate 255 0) 1] @ [Command ([0xBA, 0x00] @ replicate 254 0) 2])))
           = [[0x04, 0x00], [0xAB, 0x01, 0x7E, 0x44]]"
    by (simp add: Emulation_def example_env_def emu_defs iso_defs emu_state_initial_def
        DYNAMIC_RESPONSE_BUFFER_SIZE_def DYNAMIC_MODULATION_BUFFER_SIZE_def
        AddCrc14A_def memcpy_def frame_def crc_a_ping example_responses_def precompiled_def)
  have c: "([0x1A, 0x00, 0xB0, 0x95, 0x00, 0x1E, 0x77, 0x88] @ replicate 248 0) ! 0
             = ISO14443A_CMD_HALT \<and> (8::nat) = 4 \<or>
           ([0x1A, 0x00, 0xB0, 0x95, 0x00, 0x1E, 0x77, 0x88] @ replicate 248 0) ! 0 = (0x1A::byte) \<or>
           ([0x1A, 0x00, 0xB0, 0x95, 0x00, 0x1E, 0x77, 0x88] @ replicate 248 0) ! 0 = (0x1B::byte)"
    by simp
  have s: "list_all2 same_command
     [Command ([0x02, 0x00, 0xB0, 0x95, 0x00, 0x1E, 0x77, 0x88] @ replicate 248 0) 6]
     [Command ([0x02, 0x00, 0xB0, 0x95, 0x00, 0x1E] @ replicate 250 0) 6]"
    by (simp add: same_command_def receive_buffer_ok_def windows_received_def header_length_def
        p_apdu_cmd_def)
  show ?thesis
    using h e c s
      Emulation_silent_command_transparent [OF h, of example_env uid_initial
        "[Command ([0x26] @ replicate 255 0) 1]" "[Command ([0xBA, 0x00] @ replicate 254 0) 2]"]
      Emulation_silent_command_transparent [OF c, of example_env uid_initial
        "[Command ([0x26] @ replicate 255 0) 1]" "[]"
        "[Command ([0x02, 0x00, 0xB0, 0x95, 0x00, 0x1E, 0x77, 0x88] @ replicate 248 0) 6]"
        "[Command ([0x02, 0x00, 0xB0, 0x95, 0x00, 0x1E] @ replicate 250 0) 6]"]
    by simp
qed

section \<open>Replies built in the response buffer\<close>

lemma frame_AddCrc14A:
  assumes "n + 2 \<le> length buf" "crc (take n buf) = (lo, hi)"
  shows "take (n + 2) (AddCrc14A crc buf n) = take n buf @ [lo, hi]"
  using assms by (simp add: AddCrc14A_def memcpy_def)

lemma answer_dynamic:
  assumes "length (response d) = 64" "response_n d \<le> 61" "0 < response_n d"
      and "compute_crc env (frame d) = (lo, hi)"
  shows "snd (answer env responses p d) =
           (if \<not> prepare_tag_modulation env (frame d @ [lo, hi]) DYNAMIC_MODULATION_BUFFER_SIZE
            then [SpinDelay 500]
            else [EmSendPrecompiledCmd (frame d @ [lo, hi]), LED_C_OFF]) \<and>
         frame (dynamic_response_info (fst (answer env responses p d))) = frame d @ [lo, hi] \<and>
         response_n (dynamic_response_info (fst (answer env responses p d))) = response_n d + 2"
proof -
  have "take (response_n d + 2) (AddCrc14A (compute_crc env) (response d) (response_n d))
          = frame d @ [lo, hi]"
    using assms frame_AddCrc14A [of "response_n d" "response d" "compute_crc env" lo hi]
    by (simp add: frame_def)
  then show ?thesis
    using assms(3) by (simp add: answer_def Let_def frame_def)
qed

lemma first_canned_rule_none:
  assumes ok: "receive_buffer_ok receivedCmd len"
      and rule: "first_canned_rule (take len receivedCmd) = None"
  shows "classify p dri receivedCmd len = (p, switch_cmd dri receivedCmd len)"
proof -
  have l: "length (take len receivedCmd) = len"
    using ok by (simp add: receive_buffer_ok_def)
  have ne: "0 < length receivedCmd" "1 < length receivedCmd"
    using ok by (auto simp: receive_buffer_ok_def)
  have t1: "take (Suc 0) receivedCmd = [receivedCmd ! 0]"
    using ne(1) by (rule take1_nth)
  have t2: "take (Suc (Suc 0)) receivedCmd = [receivedCmd ! 0, receivedCmd ! Suc 0]"
    using take2_nth [OF ne(2)] by simp
  from rule l show ?thesis
    unfolding first_canned_rule_def canned_rules_def canned_rule_applies_def classify_def
    by (simp add: t1 t2 split: if_splits) blast
qed

text \<open>
  C7. Let a command be none of the rules 1 to 6, and let \<open>reply\<close> be what the \<open>switch\<close>
  leaves in \<open>dynamic_response_info\<close>. When its length is positive, the two checksum bytes
  of its first \<open>response_n\<close> bytes are appended once, the length grows by 2, and the
  modulation is prepared for the frame with the checksum; the frame is transmitted when
  the preparation succeeds, and otherwise nothing is transmitted and the loop pauses for
  \<open>SpinDelay 500\<close>. When the length is 0 nothing happens at all. In each case the loop goes
  on with the next event.
\<close>

theorem Emulation_dynamic_reply:
  assumes st: "p_response st = NULL"
              "length (response (dynamic_response_info st)) = DYNAMIC_RESPONSE_BUFFER_SIZE"
      and rx: "receive_buffer_ok receivedCmd len"
      and dyn: "first_canned_rule (take len receivedCmd) = None"
      and reply: "reply = switch_cmd ((dynamic_response_info st)\<lparr>response_n := 0\<rparr>) receivedCmd len"
      and crc: "compute_crc env (frame reply) = (lo, hi)"
      and it: "Emulation_iteration env responses st receivedCmd len = (st', acts)"
  shows "(0 < response_n reply \<longrightarrow>
            frame (dynamic_response_info st') = frame reply @ [lo, hi] \<and>
            response_n (dynamic_response_info st') = response_n reply + 2 \<and>
            acts = (if prepare_tag_modulation env (frame reply @ [lo, hi]) DYNAMIC_MODULATION_BUFFER_SIZE
                    then [EmSendPrecompiledCmd (frame reply @ [lo, hi]), LED_C_OFF]
                    else [SpinDelay 500])) \<and>
         (response_n reply = 0 \<longrightarrow> acts = []) \<and>
         Emulation_loop env responses st (Command receivedCmd len # evs) =
           (LED_C_ON # acts @ fst (Emulation_loop env responses st' evs),
            snd (Emulation_loop env responses st' evs))"
proof -
  let ?dri = "(dynamic_response_info st)\<lparr>response_n := 0\<rparr>"
  have c: "classify (p_response st) ?dri receivedCmd len = (NULL, reply)"
    using first_canned_rule_none [OF rx dyn] st(1) reply by simp
  have a: "answer env responses NULL reply = (st', acts)"
    using c it by (simp add: Emulation_iteration_def)
  have b: "length (response reply) = 64 \<and> response_n reply \<le> 61"
    using switch_cmd_length [of ?dri receivedCmd len] st(2) reply
    by (simp add: DYNAMIC_RESPONSE_BUFFER_SIZE_def)
  have pos: ?thesis if "0 < response_n reply"
    using that a answer_dynamic [of reply env lo hi responses NULL] b crc it
    by (auto simp: split_beta)
  have zero: ?thesis if "response_n reply = 0"
    using that a it by (auto simp: answer_def split_beta)
  show ?thesis
    using pos zero by blast
qed
text \<open>
  An instance: the probe \<open>BA\<close> as first command of a session, with a modulation buffer that
  holds the reply and with one that does not.
\<close>

theorem Emulation_dynamic_reply_witness:
  "p_response emu_state_initial = NULL \<and>
   length (response (dynamic_response_info emu_state_initial)) = DYNAMIC_RESPONSE_BUFFER_SIZE \<and>
   receive_buffer_ok ([0xBA, 0x00] @ replicate 254 0) 2 \<and>
   first_canned_rule (take 2 ([0xBA, 0x00] @ replicate 254 0)) = None \<and>
   frame (switch_cmd ((dynamic_response_info emu_state_initial)\<lparr>response_n := 0\<rparr>)
            ([0xBA, 0x00] @ replicate 254 0) 2) = [0xAB, 0x01] \<and>
   compute_crc example_env [0xAB, 0x01] = (0x7E, 0x44) \<and>
   snd (Emulation_iteration example_env (example_responses (take 4 uid_initial)) emu_state_initial
          ([0xBA, 0x00] @ replicate 254 0) 2)
     = [EmSendPrecompiledCmd [0xAB, 0x01, 0x7E, 0x44], LED_C_OFF] \<and>
   snd (Emulation_iteration (example_env\<lparr>prepare_tag_modulation := \<lambda>bs size. False\<rparr>)
          (example_responses (take 4 uid_initial)) emu_state_initial
          ([0xBA, 0x00] @ replicate 254 0) 2)
     = [SpinDelay 500]"
proof -
  let ?rx = "[0xBA, 0x00] @ replicate 254 (0::byte)"
  let ?reply = "switch_cmd ((dynamic_response_info emu_state_initial)\<lparr>response_n := 0\<rparr>) ?rx 2"
  let ?env = "example_env\<lparr>prepare_tag_modulation := \<lambda>bs size. False\<rparr>"
  let ?responses = "example_responses (take 4 uid_initial)"
  have st: "p_response emu_state_initial = NULL"
    "length (response (dynamic_response_info emu_state_initial)) = DYNAMIC_RESPONSE_BUFFER_SIZE"
    by (simp_all add: emu_state_initial_def)
  have rx: "receive_buffer_ok ?rx 2"
    by (simp add: receive_buffer_ok_def)
  have dyn: "first_canned_rule (take 2 ?rx) = None"
    by (simp add: first_canned_rule_def canned_rules_def canned_rule_applies_def iso_defs)
  have reply: "response_n ?reply = 2" "frame ?reply = [0xAB, 0x01]"
    by (simp_all add: switch_cmd_def Let_def memcpy_def frame_def emu_state_initial_def
        DYNAMIC_RESPONSE_BUFFER_SIZE_def)
  have crc: "compute_crc example_env (frame ?reply) = (0x7E, 0x44)"
            "compute_crc ?env (frame ?reply) = (0x7E, 0x44)"
    using reply(2) by (simp_all add: example_env_def crc_a_ping)
  have prep: "prepare_tag_modulation example_env [0xAB, 0x01, 0x7E, 0x44] DYNAMIC_MODULATION_BUFFER_SIZE"
             "\<not> prepare_tag_modulation ?env [0xAB, 0x01, 0x7E, 0x44] DYNAMIC_MODULATION_BUFFER_SIZE"
    by (simp_all add: example_env_def DYNAMIC_MODULATION_BUFFER_SIZE_def)
  show ?thesis
    using st rx dyn reply crc prep
      Emulation_dynamic_reply [OF st rx dyn refl crc(1) prod.collapse [symmetric], of ?responses "[]"]
      Emulation_dynamic_reply [OF st rx dyn refl crc(2) prod.collapse [symmetric], of ?responses "[]"]
    by simp
qed

section \<open>What a reply depends on\<close>

lemma Reply2Reader_from_cong:
  assumes rx: "take len rx1 = take len rx2"
      and t: "\<forall>(c, r) \<in> set t. 0 < length c \<and> (length c \<le> len \<longrightarrow> h + length c \<le> len)"
  shows "frame (snd (Reply2Reader_from t dri1 h rx1 len)) = frame (snd (Reply2Reader_from t dri2 h rx2 len)) \<and>
         response_n (snd (Reply2Reader_from t dri1 h rx1 len)) =
         response_n (snd (Reply2Reader_from t dri2 h rx2 len))"
  using t
proof (induction t)
  case Nil
  then show ?case by (simp add: frame_def)
next
  case (Cons a t)
  obtain c r where a: "a = (c, r)" by (cases a)
  show ?case
  proof (cases "len < length c")
    case True
    then show ?thesis using Cons a by simp
  next
    case False
    with Cons.prems a have fit: "h + length c \<le> len" and pos: "0 < length c" by auto
    have same: "memcmp_eq rx1 h c = memcmp_eq rx2 h c"
      using window_cong [OF rx fit] by (simp add: memcmp_eq_def)
    show ?thesis
    proof (cases "memcmp_eq rx1 h c")
      case True
      then have m2: "memcmp_eq rx2 h c" using same by simp
      have "take h rx1 = take h rx2"
        using header_cong [OF rx, of h] fit by simp
      then show ?thesis
        using False a True m2 frame_hit [where dri = dri1 and r = r, OF True pos]
          frame_hit [where dri = dri2 and r = r, OF m2 pos]
        by simp
    next
      case no: False
      then show ?thesis using Cons a same False by simp
    qed
  qed
qed

lemma Reply2Reader_cong:
  assumes rx: "take len rx1 = take len rx2"
      and w: "list_all (\<lambda>cmd. length cmd \<le> len \<longrightarrow> h + length cmd \<le> len) p_apdu_cmd"
  shows "frame (snd (Reply2Reader dri1 h rx1 len)) = frame (snd (Reply2Reader dri2 h rx2 len)) \<and>
         response_n (snd (Reply2Reader dri1 h rx1 len)) = response_n (snd (Reply2Reader dri2 h rx2 len))"
  unfolding Reply2Reader_def
  by (rule Reply2Reader_from_cong [OF rx]) (use w in \<open>simp add: p_apdu_cmd_def p_apdu_response_def cmd01_def cmd02_def cmd03_def\<close>)

lemma switch_cmd_cong:
  assumes rx: "take len rx1 = take len rx2"
      and first: "rx1 ! 0 = rx2 ! 0"
      and plain: "rx1 ! 0 \<noteq> 0xAA" "rx1 ! 0 \<noteq> 0xBB"
      and w: "windows_received (rx1 ! 0) len"
  shows "frame (switch_cmd dri1 rx1 len) = frame (switch_cmd dri2 rx2 len) \<and>
         response_n (switch_cmd dri1 rx1 len) = response_n (switch_cmd dri2 rx2 len)"
proof (cases "header_length (rx1 ! 0)")
  case None
  then have "rx1 ! 0 \<noteq> 0x02" "rx1 ! 0 \<noteq> 0x03" "rx1 ! 0 \<noteq> 0x0B" "rx1 ! 0 \<noteq> 0x0A"
    by (auto simp: header_length_def split: if_splits)
  then show ?thesis
    using first plain by (simp add: switch_cmd_def Let_def frame_def memcpy_def)
next
  case (Some h)
  then have fit: "list_all (\<lambda>cmd. length cmd \<le> len \<longrightarrow> h + length cmd \<le> len) p_apdu_cmd"
    using w by (simp add: windows_received_def)
  from Some consider (one) "rx1 ! 0 = 0x02 \<or> rx1 ! 0 = 0x03" "h = 1"
    | (two) "rx1 ! 0 \<noteq> 0x02" "rx1 ! 0 \<noteq> 0x03" "rx1 ! 0 = 0x0B \<or> rx1 ! 0 = 0x0A" "h = 2"
    by (auto simp: header_length_def split: if_splits)
  then show ?thesis
  proof cases
    case one
    then show ?thesis
      using Reply2Reader_cong [OF rx fit, of dri1 dri2] first
      by (simp add: switch_cmd_def Let_def)
  next
    case two
    then show ?thesis
      using Reply2Reader_cong [OF rx fit, of dri1 dri2] first
      by (simp add: switch_cmd_def Let_def)
  qed
qed

lemma classify_cong:
  assumes rx: "take len rx1 = take len rx2"
      and l: "receive_buffer_ok rx1 len" "receive_buffer_ok rx2 len" and pos: "0 < len"
      and plain: "rx1 ! 0 \<noteq> 0xAA" "rx1 ! 0 \<noteq> 0xBB"
      and w: "windows_received (rx1 ! 0) len"
      and n: "response_n dri1 = 0" "response_n dri2 = 0"
  shows "fst (classify p dri1 rx1 len) = fst (classify p dri2 rx2 len) \<and>
         frame (snd (classify p dri1 rx1 len)) = frame (snd (classify p dri2 rx2 len)) \<and>
         response_n (snd (classify p dri1 rx1 len)) = response_n (snd (classify p dri2 rx2 len))"
proof -
  have ne: "0 < length rx1" "0 < length rx2" "1 < length rx1" "1 < length rx2"
    using l unfolding receive_buffer_ok_def by linarith+
  have first: "rx1 ! 0 = rx2 ! 0"
    by (rule nth_from_take [OF rx pos ne(1) ne(2)])
  have second: "rx1 ! 1 = rx2 ! 1" if "len = 2 \<or> len = 9"
  proof -
    from that have "1 < len" by auto
    then show ?thesis
      by (rule nth_from_take [OF rx _ ne(3) ne(4)])
  qed
  note sw = switch_cmd_cong [OF rx first plain w, of dri1 dri2]
  show ?thesis
  proof (cases "len = 2 \<or> len = 9")
    case True
    then show ?thesis
      using first second sw n by (auto simp: classify_def frame_def)
  next
    case False
    then show ?thesis
      using first sw n by (auto simp: classify_def frame_def)
  qed
qed

lemma answer_cong:
  assumes "length (response d1) = 64" "response_n d1 \<le> 61"
      and "length (response d2) = 64" "response_n d2 \<le> 61"
      and "frame d1 = frame d2" "response_n d1 = response_n d2"
  shows "snd (answer env responses p d1) = snd (answer env responses p d2)"
proof (cases "0 < response_n d1")
  case True
  obtain lo hi where crc: "compute_crc env (frame d1) = (lo, hi)"
    by (cases "compute_crc env (frame d1)")
  show ?thesis
    using answer_dynamic [OF assms(1,2) True crc, of responses p]
      answer_dynamic [OF assms(3,4), of env lo hi responses p] True crc assms(5,6)
    by simp
next
  case False
  then show ?thesis
    using assms(5,6) by (simp add: answer_def split: resp_ptr.split)
qed

text \<open>
  C9 (as stated it fails). The reply to \<open>AA\<close> or \<open>BB\<close> has two bytes, of which the code
  writes the first only: the second is what an earlier reply of the session left in the
  response buffer. Two sessions with the same identifier answer the same command \<open>AA\<close>
  differently, \<open>BB 00\<close> as first command and \<open>BB 01\<close> after the probe \<open>BA\<close>.
\<close>

theorem Emulation_reply_depends_on_history:
  "transmitted (fst (Emulation example_env uid_initial
      [Command ([0xAA] @ replicate 255 0) 1]))
   = [[0xBB, 0x00, 0x66, 0xC0]] \<and>
   transmitted (fst (Emulation example_env uid_initial
      [Command ([0xBA, 0x00] @ replicate 254 0) 2, Command ([0xAA] @ replicate 255 0) 1]))
   = [[0xAB, 0x01, 0x7E, 0x44], [0xBB, 0x01, 0xEF, 0xD1]]"
proof -
  have c: "crc_a [0xBB, 0x00] = (0x66, 0xC0)" "crc_a [0xBB, 0x01] = (0xEF, 0xD1)"
    by (simp_all add: crc_a_def crc_a_update_def)
  show ?thesis
  by (simp add: Emulation_def example_env_def emu_defs iso_defs emu_state_initial_def
      DYNAMIC_RESPONSE_BUFFER_SIZE_def DYNAMIC_MODULATION_BUFFER_SIZE_def
      AddCrc14A_def memcpy_def frame_def crc_a_ping c)
qed
text \<open>
  C9 (amended). Take a command of at least one byte whose first byte is neither \<open>AA\<close> nor
  \<open>BB\<close> and which, when it is an I-block, holds every window that \<open>Reply2Reader\<close>
  compares. What the loop does for it (the frame transmitted, or the pause) depends on
  the received bytes, their number, the precompiled responses and the collaborators only:
  it is the same from any two states of the loop, whatever the response buffers hold from
  earlier replies and whatever lies in the receive buffers behind the received bytes. The
  states of a session are among these: the response buffer keeps its size and
  \<open>p_response\<close> is null at each start of the loop body
  (\<open>Emulation_iteration_length\<close>, \<open>Emulation_iteration_null\<close>).
\<close>

theorem Emulation_reply_independent:
  assumes st1: "length (response (dynamic_response_info st1)) = DYNAMIC_RESPONSE_BUFFER_SIZE"
               "p_response st1 = NULL"
      and st2: "length (response (dynamic_response_info st2)) = DYNAMIC_RESPONSE_BUFFER_SIZE"
               "p_response st2 = NULL"
      and l: "receive_buffer_ok rx1 len" "receive_buffer_ok rx2 len"
      and rx: "0 < len" "take len rx1 = take len rx2"
      and plain: "rx1 ! 0 \<noteq> 0xAA" "rx1 ! 0 \<noteq> 0xBB"
      and w: "windows_received (rx1 ! 0) len"
  shows "snd (Emulation_iteration env responses st1 rx1 len)
           = snd (Emulation_iteration env responses st2 rx2 len)"
proof -
  let ?d1 = "(dynamic_response_info st1)\<lparr>response_n := 0\<rparr>"
  let ?d2 = "(dynamic_response_info st2)\<lparr>response_n := 0\<rparr>"
  obtain p1 r1 where c1: "classify NULL ?d1 rx1 len = (p1, r1)"
    by (cases "classify NULL ?d1 rx1 len")
  obtain p2 r2 where c2: "classify NULL ?d2 rx2 len = (p2, r2)"
    by (cases "classify NULL ?d2 rx2 len")
  have same: "p1 = p2 \<and> frame r1 = frame r2 \<and> response_n r1 = response_n r2"
    using classify_cong [OF rx(2) l rx(1) plain w, of ?d1 ?d2 NULL] c1 c2 by simp
  have b1: "length (response r1) = 64 \<and> response_n r1 \<le> 61"
    using classify_length [of ?d1 NULL rx1 len] st1(1) c1
    by (simp add: DYNAMIC_RESPONSE_BUFFER_SIZE_def)
  have b2: "length (response r2) = 64 \<and> response_n r2 \<le> 61"
    using classify_length [of ?d2 NULL rx2 len] st2(1) c2
    by (simp add: DYNAMIC_RESPONSE_BUFFER_SIZE_def)
  have "snd (answer env responses p1 r1) = snd (answer env responses p2 r2)"
    using answer_cong [of r1 r2 env responses p1] same b1 b2 by simp
  then show ?thesis
    using c1 c2 st1(2) st2(2) by (simp add: Emulation_iteration_def)
qed


text \<open>
  An instance: the select of rule 1 in an I-block, received in a fresh session and after
  the probe \<open>BA\<close>, with different bytes behind the command in the receive buffer.
\<close>

theorem Emulation_reply_independent_witness:
  "length (response (dynamic_response_info emu_state_initial)) = DYNAMIC_RESPONSE_BUFFER_SIZE \<and>
   p_response emu_state_initial = NULL \<and>
   length ([0xAB, 0x01, 0x7E, 0x44] @ replicate 60 (0::byte)) = DYNAMIC_RESPONSE_BUFFER_SIZE \<and>
   receive_buffer_ok ([0x02] @ cmd01 @ [0x12, 0x34] @ replicate 246 0) 10 \<and>
   receive_buffer_ok ([0x02] @ cmd01 @ [0x12, 0x34] @ replicate 246 0xFF) 10 \<and>
   take 10 ([0x02] @ cmd01 @ [0x12, 0x34] @ replicate 246 (0::byte))
     = take 10 ([0x02] @ cmd01 @ [0x12, 0x34] @ replicate 246 (0xFF::byte)) \<and>
   windows_received (([0x02] @ cmd01 @ [0x12, 0x34] @ replicate 246 (0::byte)) ! 0) 10 \<and>
   snd (Emulation_iteration example_env (example_responses (take 4 uid_initial)) emu_state_initial
          ([0x02] @ cmd01 @ [0x12, 0x34] @ replicate 246 0) 10)
   = snd (Emulation_iteration example_env (example_responses (take 4 uid_initial))
          \<lparr>dynamic_response_info =
             \<lparr>response = [0xAB, 0x01, 0x7E, 0x44] @ replicate 60 0, response_n = 4\<rparr>,
           p_response = NULL\<rparr>
          ([0x02] @ cmd01 @ [0x12, 0x34] @ replicate 246 0xFF) 10)"
proof -
  let ?rx1 = "[0x02] @ cmd01 @ [0x12, 0x34] @ replicate 246 (0::byte)"
  let ?rx2 = "[0x02] @ cmd01 @ [0x12, 0x34] @ replicate 246 (0xFF::byte)"
  let ?st2 = "\<lparr>dynamic_response_info =
             \<lparr>response = [0xAB, 0x01, 0x7E, 0x44] @ replicate 60 (0::byte), response_n = 4\<rparr>,
           p_response = NULL\<rparr>"
  have st1: "length (response (dynamic_response_info emu_state_initial)) = DYNAMIC_RESPONSE_BUFFER_SIZE"
    "p_response emu_state_initial = NULL"
    by (simp_all add: emu_state_initial_def)
  have st2: "length (response (dynamic_response_info ?st2)) = DYNAMIC_RESPONSE_BUFFER_SIZE"
    "p_response ?st2 = NULL"
    by (simp_all add: DYNAMIC_RESPONSE_BUFFER_SIZE_def)
  have l: "receive_buffer_ok ?rx1 10" "receive_buffer_ok ?rx2 10"
    by (simp_all add: receive_buffer_ok_def)
  have rx: "(0::nat) < 10" "take 10 ?rx1 = take 10 ?rx2"
    by (simp_all add: cmd01_def)
  have plain: "?rx1 ! 0 \<noteq> 0xAA" "?rx1 ! 0 \<noteq> 0xBB"
    by simp_all
  have w: "windows_received (?rx1 ! 0) 10"
    by (simp add: windows_received_def header_length_def p_apdu_cmd_def)
  show ?thesis
    using st1 st2 l rx w
      Emulation_reply_independent [OF st1 st2 l rx plain w, of example_env "example_responses (take 4 uid_initial)"]
    by simp
qed

section \<open>The identifier in RunMod\<close>

lemma Emulation_aborted_returns:
  "\<exists>acts rv. Emulation env uid [NoCommand] = (acts, Some rv)"
  by (cases "SimulateIso14443aInit env (take 4 uid)") (simp_all add: Emulation_def)

lemma RunMod_loop_failed_click:
  "\<exists>acts rv.
     RunMod_loop env uid retval (failed_click # inputs) =
       (Reading_call uid # Emulation_call (single_click None uid) acts #
          fst (RunMod_loop env (single_click None uid) rv inputs),
        snd (RunMod_loop env (single_click None uid) rv inputs))"
proof -
  obtain acts rv where "Emulation env (single_click None uid) [NoCommand] = (acts, Some rv)"
    using Emulation_aborted_returns by blast
  then have "RunMod_loop env uid retval (failed_click # inputs) =
       (Reading_call uid # Emulation_call (single_click None uid) acts #
          fst (RunMod_loop env (single_click None uid) rv inputs),
        snd (RunMod_loop env (single_click None uid) rv inputs))"
    by (simp add: failed_click_def Let_def split_beta)
  then show ?thesis by blast
qed

lemma RunMod_loop_failed_clicks:
  "reading_uids (fst (RunMod_loop env uid retval (replicate n failed_click)))
     = map (\<lambda>k. (single_click None ^^ k) uid) [0..<n] \<and>
   fst (snd (RunMod_loop env uid retval (replicate n failed_click)))
     = (single_click None ^^ n) uid"
proof (induction n arbitrary: uid retval)
  case 0
  then show ?case by simp
next
  case (Suc n)
  obtain acts rv where
    step: "RunMod_loop env uid retval (failed_click # replicate n failed_click) =
       (Reading_call uid # Emulation_call (single_click None uid) acts #
          fst (RunMod_loop env (single_click None uid) rv (replicate n failed_click)),
        snd (RunMod_loop env (single_click None uid) rv (replicate n failed_click)))"
    using RunMod_loop_failed_click by blast
  show ?case
    using Suc.IH [of "single_click None uid" rv] step
    by (simp add: map_upt_Suc funpow_swap1 del: upt_Suc)
qed

lemma single_click_failed:
  "single_click None uid = (if uid ! 0 < 255 then uid[0 := uid ! 0 + 1] else uid)"
  by (simp add: single_click_def Reading_def)

lemma single_click_saturated:
  "uid ! 0 = 255 \<Longrightarrow> (single_click None ^^ n) uid = uid"
  by (induction n) (simp_all add: single_click_failed)

lemma walk5:
  "map (\<lambda>k. (single_click None ^^ k) uid_initial ! 0) [0..<5] = [0xbf, 0xc0, 0xc1, 0xc2, 0xc3]
   \<and> (single_click None ^^ 5) uid_initial ! 0 = 0xc4"
proof -
  have five: "(5::nat) = Suc (Suc (Suc (Suc (Suc 0))))"
    by simp
  show ?thesis
    unfolding five by (simp add: single_click_failed uid_initial_def)
qed

text \<open>
  C6. A failed selection adds 1 to the first byte of \<open>uid\<close> when that byte is below 255 and
  changes nothing else; at 255 it changes nothing. Starting from \<open>bf 88 69 3e\<close>, five
  iterations of the loop with a failed selection each call \<open>Reading\<close> with the first bytes
  \<open>bf, c0, c1, c2, c3\<close> in turn (the fifth failure leaves \<open>c4\<close>). Once the first byte is 255,
  any number of failed selections leaves \<open>uid\<close> as it is.
\<close>

theorem RunMod_fallback_walk:
  "single_click None uid = (if uid ! 0 < 255 then uid[0 := uid ! 0 + 1] else uid) \<and>
   map (\<lambda>u. u ! 0) (reading_uids (fst (RunMod_loop env uid_initial retval (replicate 5 failed_click))))
     = [0xbf, 0xc0, 0xc1, 0xc2, 0xc3] \<and>
   fst (snd (RunMod_loop env uid_initial retval (replicate 5 failed_click))) ! 0 = 0xc4 \<and>
   (uid ! 0 = 255 \<longrightarrow>
      fst (snd (RunMod_loop env uid retval (replicate n failed_click))) = uid)"
  using RunMod_loop_failed_clicks [of env uid_initial retval 5]
    RunMod_loop_failed_clicks [of env uid retval n] walk5 single_click_saturated [of uid n]
  by (simp add: single_click_failed comp_def)


text \<open>An instance: three failed selections with the first byte at 255.\<close>

theorem RunMod_fallback_walk_witness:
  "([0xff, 0x88, 0x69, 0x3e, 0, 0, 0, 0, 0, 0] :: byte list) ! 0 = 255 \<and>
   fst (snd (RunMod_loop example_env [0xff, 0x88, 0x69, 0x3e, 0, 0, 0, 0, 0, 0] PM3_SUCCESS
              (replicate 3 failed_click)))
     = [0xff, 0x88, 0x69, 0x3e, 0, 0, 0, 0, 0, 0]"
  using RunMod_fallback_walk [of "[0xff, 0x88, 0x69, 0x3e, 0, 0, 0, 0, 0, 0]" example_env PM3_SUCCESS 3]
  by simp

end
